theory Spec2Isabelle
  imports Main "HOL-Library.Sublist" "HOL-Library.Extended_Nat"
begin

section \<open>JavaScript values, exceptions and strings\<close>

text \<open>
  The generation route is TypeScript on Node. Three features of the language decide the
  properties below and are written out here: a thrown exception (a value of \<open>error\<close> on the
  left of a sum, so that every \<open>try\<close>/\<open>catch\<close> of the source is a \<open>case\<close> of the model),
  truthiness (the operators \<open>!x\<close> and \<open>a || b\<close>), and the conversion of a value to text
  inside a template literal, which can throw.

  A string is the list of its code units, each below 256; lengths and truncation count code
  units, as \<open>length\<close> and \<open>substring\<close> do.
\<close>

datatype error = NetworkError | HttpError nat | TypeError | SyntaxError | ModelError | StorageError

type_synonym 'a result = "error + 'a"

definition bnd :: "'a result \<Rightarrow> ('a \<Rightarrow> 'b result) \<Rightarrow> 'b result" where
  "bnd m f = (case m of Inl e \<Rightarrow> Inl e | Inr v \<Rightarrow> f v)"

text \<open>
  A value that came out of \<open>JSON.parse\<close>, or \<open>undefined\<close> (what reading a missing property
  gives). A number is kept as the two things the code can observe of it: whether it is
  zero, and the text JavaScript prints for it. An object is the list of its own properties
  in the order of the text; a later property of the same name replaces an earlier one.
\<close>

datatype jsval =
    Undefined
  | Null
  | Bool bool
  | Num bool string
  | Str string
  | Arr "jsval list"
  | Obj "(string \<times> jsval) list"

fun truthy :: "jsval \<Rightarrow> bool" where
  "truthy Undefined = False"
| "truthy Null = False"
| "truthy (Bool b) = b"
| "truthy (Num zero digits) = (\<not> zero)"
| "truthy (Str s) = (s \<noteq> [])"
| "truthy (Arr xs) = True"
| "truthy (Obj ps) = True"

definition js_or :: "jsval \<Rightarrow> jsval \<Rightarrow> jsval" where
  "js_or a b = (if truthy a then a else b)"

text \<open>
  The conversion of a value to text, as a template literal \<open>`${v}`\<close> does it. An array is
  the texts of its elements joined by commas, null and undefined elements giving the empty
  text. An object is converted by its \<open>toString\<close>: the inherited one gives
  \<open>[object Object]\<close>; an own property of that name holds a JSON value, which cannot be
  called, the inherited \<open>valueOf\<close> then returns the object itself, and the conversion throws
  a TypeError.
\<close>

fun to_string :: "jsval \<Rightarrow> string result"
  and join_elements :: "jsval list \<Rightarrow> string result" where
  "to_string Undefined = Inr ''undefined''"
| "to_string Null = Inr ''null''"
| "to_string (Bool b) = Inr (if b then ''true'' else ''false'')"
| "to_string (Num zero digits) = Inr digits"
| "to_string (Str s) = Inr s"
| "to_string (Arr xs) = join_elements xs"
| "to_string (Obj ps) =
     (if ''toString'' \<in> set (map fst ps) then Inl TypeError else Inr ''[object Object]'')"
| "join_elements [] = Inr []"
| "join_elements (x # xs) =
     (case (if x = Undefined \<or> x = Null then Inr [] else to_string x) of
        Inl e \<Rightarrow> Inl e
      | Inr s \<Rightarrow>
          if xs = [] then Inr s
          else (case join_elements xs of Inl e \<Rightarrow> Inl e | Inr r \<Rightarrow> Inr (s @ '','' @ r)))"

text \<open>
  Reading a property of a value, for the names this code reads (none of them is a property
  that strings, numbers, booleans or arrays have): of null and undefined it throws, of an
  object it gives the own property or undefined.
\<close>

definition property :: "jsval \<Rightarrow> string \<Rightarrow> jsval result" where
  "property v name =
     (case v of
        Undefined \<Rightarrow> Inl TypeError
      | Null \<Rightarrow> Inl TypeError
      | Obj ps \<Rightarrow> Inr (case map_of (rev ps) name of None \<Rightarrow> Undefined | Some x \<Rightarrow> x)
      | _ \<Rightarrow> Inr Undefined)"

text \<open>An environment variable is a string or is unset; \<open>!v\<close> holds when it is unset or empty.\<close>

definition env_set :: "string option \<Rightarrow> bool" where
  "env_set v = (case v of None \<Rightarrow> False | Some s \<Rightarrow> s \<noteq> [])"

text \<open>\<open>a || b\<close> on strings: the empty string is falsy, and so is undefined.\<close>

definition str_or :: "string \<Rightarrow> string \<Rightarrow> string" where
  "str_or a b = (if a \<noteq> [] then a else b)"

definition opt_or :: "string option \<Rightarrow> string \<Rightarrow> string" where
  "opt_or a b = (case a of None \<Rightarrow> b | Some s \<Rightarrow> if s \<noteq> [] then s else b)"

text \<open>
  The result of \<open>fetch\<close>: the promise rejects (no response), or resolves to a response with
  a status and a body. \<open>response.ok\<close> is true exactly for the statuses 200 to 299.
\<close>

datatype 'b fetched = NetworkFailure | Response nat 'b

definition ok :: "nat \<Rightarrow> bool" where
  "ok code = (200 \<le> code \<and> code \<le> 299)"

text \<open>\<open>Array.prototype.map\<close> with a callback that may throw: the first exception ends the call.\<close>

fun map_result :: "('a \<Rightarrow> 'b result) \<Rightarrow> 'a list \<Rightarrow> 'b list result" where
  "map_result f [] = Inr []"
| "map_result f (x # xs) =
     (case f x of
        Inl e \<Rightarrow> Inl e
      | Inr y \<Rightarrow> (case map_result f xs of Inl e \<Rightarrow> Inl e | Inr ys \<Rightarrow> Inr (y # ys)))"


section \<open>Asset Sourcer: getUnsplashImages and generatePlaceholderImages\<close>

record ImageAsset =
  url :: jsval
  thumb :: jsval
  alt :: jsval
  credit :: string
  download_url :: jsval

text \<open>
  One element of \<open>data.results\<close>, as far as the callback reads it. \<open>urls\<close>, \<open>user\<close> and
  \<open>links\<close> are \<open>None\<close> when the property is missing or null, so that reading a property
  of it throws a TypeError; otherwise they hold the leaves the callback reads
  (\<open>urls.regular\<close> and \<open>urls.thumb\<close>, \<open>user.name\<close>, \<open>links.download_location\<close>).
\<close>

record photo =
  urls :: "(jsval \<times> jsval) option"
  alt_description :: jsval
  user :: "jsval option"
  links :: "jsval option"

text \<open>
  The parsed payload: \<open>NoArray\<close> when \<open>data\<close> is null or \<open>data.results\<close> is not an array
  (then \<open>data.results.map\<close> throws a TypeError); an element of the array is \<open>None\<close> when it
  is null.
\<close>

datatype unsplash_data = NoArray | Results "photo option list"

type_synonym unsplash_reply = "unsplash_data result fetched"

definition placeholder :: "string \<Rightarrow> ImageAsset" where
  \<open>placeholder query =
     \<lparr> url = Str ''https://images.unsplash.com/photo-1560472354-b33ff0c44a43?w=800&h=600&fit=crop&crop=center'',
       thumb = Str ''https://images.unsplash.com/photo-1560472354-b33ff0c44a43?w=400&h=300&fit=crop&crop=center'',
       alt = Str query,
       credit = ''Professional stock photo'',
       download_url = Null \<rparr>\<close>

text \<open>The loop \<open>for (let i = 0; i < count; i++) images.push(...)\<close>.\<close>

function placeholder_loop :: "string \<Rightarrow> int \<Rightarrow> int \<Rightarrow> ImageAsset list \<Rightarrow> ImageAsset list" where
  "placeholder_loop query count i images =
     (if i < count then placeholder_loop query count (i + 1) (images @ [placeholder query])
      else images)"
  by pat_completeness auto
termination
  by (relation "measure (\<lambda>(query, count, i, images). nat (count - i))") auto

declare placeholder_loop.simps [simp del]

definition generatePlaceholderImages :: "string \<Rightarrow> int \<Rightarrow> ImageAsset list" where
  "generatePlaceholderImages query count = placeholder_loop query count 0 []"

definition photo_to_asset :: "string \<Rightarrow> photo option \<Rightarrow> ImageAsset result" where
  "photo_to_asset query p =
     (case p of
        None \<Rightarrow> Inl TypeError
      | Some ph \<Rightarrow>
          (case urls ph of
             None \<Rightarrow> Inl TypeError
           | Some (regular, thumbnail) \<Rightarrow>
               (case user ph of
                  None \<Rightarrow> Inl TypeError
                | Some name \<Rightarrow>
                    (case to_string name of
                       Inl e \<Rightarrow> Inl e
                     | Inr name_text \<Rightarrow>
                         (case links ph of
                            None \<Rightarrow> Inl TypeError
                          | Some download_location \<Rightarrow>
                              Inr \<lparr> url = regular,
                                    thumb = thumbnail,
                                    alt = js_or (alt_description ph) (Str query),
                                    credit = ''Photo by '' @ name_text @ '' on Unsplash'',
                                    download_url = download_location \<rparr>)))))"

text \<open>
  The image provider, as the route sees it: the key from the process environment, and the
  reply of the search endpoint to a query and a count.
\<close>

record image_provider =
  UNSPLASH_ACCESS_KEY :: "string option"
  unsplash_search :: "string \<Rightarrow> int \<Rightarrow> unsplash_reply"

text \<open>The statements of \<open>getUnsplashImages\<close> after the key check, inside the \<open>try\<close>.\<close>

definition unsplash_request :: "image_provider \<Rightarrow> string \<Rightarrow> int \<Rightarrow> ImageAsset list result" where
  "unsplash_request ip query count =
     (case unsplash_search ip query count of
        NetworkFailure \<Rightarrow> Inl NetworkError
      | Response code json \<Rightarrow>
          if \<not> ok code then Inl (HttpError code)
          else bnd json (\<lambda>data.
            case data of
              NoArray \<Rightarrow> Inl TypeError
            | Results ps \<Rightarrow> map_result (photo_to_asset query) ps))"

definition getUnsplashImages :: "image_provider \<Rightarrow> string \<Rightarrow> int \<Rightarrow> ImageAsset list result" where
  "getUnsplashImages ip query count =
     (if \<not> env_set (UNSPLASH_ACCESS_KEY ip) then Inr (generatePlaceholderImages query count)
      else (case unsplash_request ip query count of
              Inl e \<Rightarrow> Inr (generatePlaceholderImages query count)
            | Inr images \<Rightarrow> Inr images))"


section \<open>Page Analyzer: analyzeProductURL\<close>

record ProductSummary =
  title :: string
  description :: string
  price :: string
  originalUrl :: jsval

text \<open>
  What the selectors of \<open>analyzeProductURL\<close> return on a parsed document. \<open>text()\<close> is the
  empty string when nothing matches; \<open>attr('content')\<close> is \<open>None\<close> (undefined) when the
  element or the attribute is missing.
\<close>

record page =
  title_text :: string
  h1_first_text :: string
  product_title_text :: string
  meta_description :: "string option"
  og_description :: "string option"
  p_first_text :: string
  testid_price_text :: string
  price_class_first_text :: string
  price_like_class_first_text :: string

text \<open>
  The merchant's site and the HTML parser: the reply to a GET of the value handed to
  \<open>fetch\<close> (a value that is no address is a rejected call; \<open>response.text()\<close> may reject),
  and the selections \<open>cheerio.load\<close> gives on a document text.
\<close>

record page_source =
  fetch_page :: "jsval \<Rightarrow> string result fetched"
  cheerio_load :: "string \<Rightarrow> page"

definition substring0 :: "string \<Rightarrow> nat \<Rightarrow> string" where
  "substring0 s n = take n s"

definition analyze_request :: "page_source \<Rightarrow> jsval \<Rightarrow> ProductSummary result" where
  \<open>analyze_request ps u =
     (case fetch_page ps u of
        NetworkFailure \<Rightarrow> Inl NetworkError
      | Response code text \<Rightarrow>
          if \<not> ok code then Inl (HttpError code)
          else bnd text (\<lambda>html.
            let doc = cheerio_load ps html;
                title = str_or (title_text doc)
                          (str_or (h1_first_text doc)
                             (str_or (product_title_text doc) ''Amazing Product''));
                description = opt_or (meta_description doc)
                                (opt_or (og_description doc)
                                   (str_or (p_first_text doc)
                                      ''Discover this incredible product that will transform your life.''));
                price = str_or (testid_price_text doc)
                          (str_or (price_class_first_text doc)
                             (str_or (price_like_class_first_text doc) ''$99.99''))
            in Inr \<lparr> title = substring0 title 100,
                      description = substring0 description 200,
                      price = substring0 price 20,
                      originalUrl = u \<rparr>))\<close>

definition fallback_summary :: "jsval \<Rightarrow> ProductSummary" where
  \<open>fallback_summary u =
     \<lparr> title = ''Premium Product'',
       description = ''An amazing product that delivers exceptional value and results.'',
       price = ''$99.99'',
       originalUrl = u \<rparr>\<close>

definition analyzeProductURL :: "page_source \<Rightarrow> jsval \<Rightarrow> ProductSummary result" where
  "analyzeProductURL ps u =
     (case analyze_request ps u of
        Inl e \<Rightarrow> Inr (fallback_summary u)
      | Inr summary \<Rightarrow> Inr summary)"


section \<open>Content Synthesizer: generateWebsiteContent and generateProfessionalTemplate\<close>

text \<open>
  \<open>${images[i]?.url || 'https://images.unsplash.com/photo-1560472354-b33ff0c44a43'}\<close>: the
  address of the image, or the default when there is no such image or its address is falsy,
  converted to text.
\<close>

definition url_or_default :: "ImageAsset list \<Rightarrow> nat \<Rightarrow> string result" where
  \<open>url_or_default images i =
     to_string (js_or (if i < length images then url (images ! i) else Undefined)
                      (Str ''https://images.unsplash.com/photo-1560472354-b33ff0c44a43''))\<close>

text \<open>
  The fallback template, one list element for each line of the template literal, over the
  texts of the values it embeds: \<open>link\<close> for \<open>productInfo.originalUrl\<close>, \<open>feature0\<close>,
  \<open>feature1\<close> and \<open>testimonial0\<close> for the three image addresses. The title, the
  description and the price are strings already.
\<close>

definition template_lines ::
  "ProductSummary \<Rightarrow> string \<Rightarrow> string \<Rightarrow> string \<Rightarrow> string \<Rightarrow> string list" where
  \<open>template_lines productInfo link feature0 feature1 testimonial0 =
      [''<!DOCTYPE html>\<newline>'',
       ''<html lang="en">\<newline>'',
       ''<head>\<newline>'',
       ''    <meta charset="UTF-8">\<newline>'',
       ''    <meta name="viewport" content="width=device-width, initial-scale=1.0">\<newline>'',
       ''    <title>'' @ title productInfo @ '' - Professional Affiliate Website</title>\<newline>'',
       ''    <style>\<newline>'',
       ''        * { margin: 0; padding: 0; box-sizing: border-box; }\<newline>'',
       ''        body { font-family: 'Arial', sans-serif; line-height: 1.6; color: #333; }\<newline>'',
       ''        .container { max-width: 1200px; margin: 0 auto; padding: 0 20px; }\<newline>'',
       ''        .hero { background: linear-gradient(135deg, #667eea 0%, #764ba2 100%); color: white; padding: 100px 0; text-align: center; }\<newline>'',
       ''        .hero h1 { font-size: 3rem; margin-bottom: 20px; }\<newline>'',
       ''        .hero p { font-size: 1.2rem; margin-bottom: 30px; }\<newline>'',
       ''        .cta-button { background: #ff6b6b; color: white; padding: 15px 30px; border: none; border-radius: 5px; font-size: 1.1rem; cursor: pointer; text-decoration: none; display: inline-block; }\<newline>'',
       ''        .features { padding: 80px 0; background: #f8f9fa; }\<newline>'',
       ''        .feature-grid { display: grid; grid-template-columns: repeat(auto-fit, minmax(300px, 1fr)); gap: 40px; margin-top: 50px; }\<newline>'',
       ''        .feature { text-align: center; padding: 30px; background: white; border-radius: 10px; box-shadow: 0 5px 15px rgba(0,0,0,0.1); }\<newline>'',
       ''        .feature img { width: 100%; height: 200px; object-fit: cover; border-radius: 10px; margin-bottom: 20px; }\<newline>'',
       ''        .testimonials { padding: 80px 0; }\<newline>'',
       ''        .testimonial { text-align: center; max-width: 600px; margin: 0 auto; }\<newline>'',
       ''        .testimonial img { width: 80px; height: 80px; border-radius: 50%; margin-bottom: 20px; }\<newline>'',
       ''        @media (max-width: 768px) { .hero h1 { font-size: 2rem; } .feature-grid { grid-template-columns: 1fr; } }\<newline>'',
       ''    </style>\<newline>'',
       ''</head>\<newline>'',
       ''<body>\<newline>'',
       ''    <section class="hero">\<newline>'',
       ''        <div class="container">\<newline>'',
       ''            <h1>'' @ title productInfo @ ''</h1>\<newline>'',
       ''            <p>'' @ description productInfo @ ''</p>\<newline>'',
       ''            <a href="'' @ link @ ''" class="cta-button">Get '' @ title productInfo @ '' Now - '' @ price productInfo @ ''</a>\<newline>'',
       ''        </div>\<newline>'',
       ''    </section>\<newline>'',
       ''    \<newline>'',
       ''    <section class="features">\<newline>'',
       ''        <div class="container">\<newline>'',
       ''            <h2 style="text-align: center; font-size: 2.5rem; margin-bottom: 20px;">Why Choose '' @ title productInfo @ ''?</h2>\<newline>'',
       ''            <div class="feature-grid">\<newline>'',
       ''                <div class="feature">\<newline>'',
       ''                    <img src="'' @ feature0 @ ''" alt="Premium Quality">\<newline>'',
       ''                    <h3>Premium Quality</h3>\<newline>'',
       ''                    <p>Experience the highest quality standards with '' @ title productInfo @ ''. Built to last and designed to impress.</p>\<newline>'',
       ''                </div>\<newline>'',
       ''                <div class="feature">\<newline>'',
       ''                    <img src="'' @ feature1 @ ''" alt="Amazing Value">\<newline>'',
       ''                    <h3>Amazing Value</h3>\<newline>'',
       ''                    <p>Get incredible value for your money. '' @ title productInfo @ '' delivers results that exceed expectations.</p>\<newline>'',
       ''                </div>\<newline>'',
       ''            </div>\<newline>'',
       ''        </div>\<newline>'',
       ''    </section>\<newline>'',
       ''    \<newline>'',
       ''    <section class="testimonials">\<newline>'',
       ''        <div class="container">\<newline>'',
       ''            <div class="testimonial">\<newline>'',
       ''                <img src="'' @ testimonial0 @ ''" alt="Happy Customer">\<newline>'',
       ''                <h3>"Life-changing results!"</h3>\<newline>'',
       ''                <p>"'' @ title productInfo @ '' has completely transformed my experience. I couldn't be happier with my purchase!"</p>\<newline>'',
       ''                <strong>- Sarah Johnson, Verified Customer</strong>\<newline>'',
       ''            </div>\<newline>'',
       ''            <div style="text-align: center; margin-top: 40px;">\<newline>'',
       ''                <a href="'' @ link @ ''" class="cta-button">Order '' @ title productInfo @ '' Today - '' @ price productInfo @ ''</a>\<newline>'',
       ''            </div>\<newline>'',
       ''        </div>\<newline>'',
       ''    </section>\<newline>'',
       ''</body>\<newline>'',
       ''</html>'']\<close>

text \<open>
  The template literal converts each embedded value in turn; the first that cannot be
  converted ends the function with its TypeError. \<open>heroImages\<close> is a parameter the literal
  never reads.
\<close>

definition generateProfessionalTemplate ::
  "ProductSummary \<Rightarrow> ImageAsset list \<Rightarrow> ImageAsset list \<Rightarrow> ImageAsset list \<Rightarrow> string result" where
  "generateProfessionalTemplate productInfo heroImages featureImages testimonialImages =
     bnd (to_string (originalUrl productInfo)) (\<lambda>link.
     bnd (url_or_default featureImages 0) (\<lambda>feature0.
     bnd (url_or_default featureImages 1) (\<lambda>feature1.
     bnd (url_or_default testimonialImages 0) (\<lambda>testimonial0.
       Inr (concat (template_lines productInfo link feature0 feature1 testimonial0))))))"

text \<open>The generation request, one list element for each line of the template literal.\<close>

definition prompt_lines ::
  "ProductSummary \<Rightarrow> string \<Rightarrow> string \<Rightarrow> string \<Rightarrow> string \<Rightarrow> string \<Rightarrow> string list" where
  \<open>prompt_lines productInfo link hero0 feature0 feature1 testimonial0 =
      [''\<newline>'',
       ''THE ULTIMATE AFFILIFY MASTER SYSTEM\<newline>'',
       ''\<newline>'',
       ''PRODUCT INFORMATION:\<newline>'',
       ''- Title: '' @ title productInfo @ ''\<newline>'',
       ''- Description: '' @ description productInfo @ ''\<newline>'',
       ''- Price: '' @ price productInfo @ ''\<newline>'',
       ''- Original URL: '' @ link @ ''\<newline>'',
       ''\<newline>'',
       ''PROFESSIONAL IMAGES AVAILABLE:\<newline>'',
       ''- Hero Image: '' @ hero0 @ ''\<newline>'',
       ''- Feature Image 1: '' @ feature0 @ ''\<newline>'',
       ''- Feature Image 2: '' @ feature1 @ ''\<newline>'',
       ''- Testimonial Image: '' @ testimonial0 @ ''\<newline>'',
       ''\<newline>'',
       ''CRITICAL MISSION: Create a professional, high-converting affiliate website that will generate $1000+ in the first week.\<newline>'',
       ''\<newline>'',
       ''RESPOND WITH ONLY VALID HTML CODE - NO JSON, NO EXPLANATIONS, JUST PURE HTML:\<newline>'',
       ''\<newline>'',
       ''Create a complete, professional HTML website with:\<newline>'',
       ''\<newline>'',
       ''1. MODERN RESPONSIVE DESIGN\<newline>'',
       ''- Mobile-first responsive layout\<newline>'',
       ''- Professional color scheme (blues, whites, grays)\<newline>'',
       ''- Modern typography and spacing\<newline>'',
       ''- CSS Grid and Flexbox layouts\<newline>'',
       ''\<newline>'',
       ''2. HIGH-CONVERTING STRUCTURE\<newline>'',
       ''- Compelling hero section with the provided hero image\<newline>'',
       ''- Clear value proposition and benefits\<newline>'',
       ''- Social proof and testimonials with testimonial image\<newline>'',
       ''- Strong call-to-action buttons\<newline>'',
       ''- Trust signals and guarantees\<newline>'',
       ''\<newline>'',
       ''3. PROFESSIONAL CONTENT\<newline>'',
       ''- Benefit-focused headlines\<newline>'',
       ''- Emotional triggers and urgency\<newline>'',
       ''- Feature explanations with feature images\<newline>'',
       ''- Risk reversal and guarantees\<newline>'',
       ''- Professional testimonials\<newline>'',
       ''\<newline>'',
       ''4. TECHNICAL EXCELLENCE\<newline>'',
       ''- Clean, semantic HTML5\<newline>'',
       ''- Embedded CSS for styling\<newline>'',
       ''- Mobile responsive design\<newline>'',
       ''- Fast loading optimization\<newline>'',
       ''- SEO-friendly structure\<newline>'',
       ''\<newline>'',
       ''5. CONVERSION OPTIMIZATION\<newline>'',
       ''- Multiple call-to-action buttons\<newline>'',
       ''- Scarcity and urgency elements\<newline>'',
       ''- Social proof throughout\<newline>'',
       ''- Easy navigation and flow\<newline>'',
       ''- Professional appearance\<newline>'',
       ''\<newline>'',
       ''The website should look like a professional $10,000+ landing page that converts visitors into customers immediately.\<newline>'',
       ''\<newline>'',
       ''USE THE PROVIDED UNSPLASH IMAGES IN THE APPROPRIATE SECTIONS.\<newline>'',
       ''\<newline>'',
       ''GENERATE COMPLETE HTML CODE NOW:'']\<close>

definition prompt ::
  "ProductSummary \<Rightarrow> ImageAsset list \<Rightarrow> ImageAsset list \<Rightarrow> ImageAsset list \<Rightarrow> string result" where
  "prompt productInfo heroImages featureImages testimonialImages =
     bnd (to_string (originalUrl productInfo)) (\<lambda>link.
     bnd (url_or_default heroImages 0) (\<lambda>hero0.
     bnd (url_or_default featureImages 0) (\<lambda>feature0.
     bnd (url_or_default featureImages 1) (\<lambda>feature1.
     bnd (url_or_default testimonialImages 0) (\<lambda>testimonial0.
       Inr (concat (prompt_lines productInfo link hero0 feature0 feature1 testimonial0)))))))"

subsection \<open>String operations of the synthesizer\<close>

text \<open>
  \<open>toLowerCase\<close>: the ASCII capitals move to their small letters. Other characters are left
  as they are: the two uses of the function compare its result against ASCII patterns only,
  and no character outside ASCII becomes one of their letters.
\<close>

definition lower_char :: "char \<Rightarrow> char" where
  "lower_char c =
     (case map_of (zip ''ABCDEFGHIJKLMNOPQRSTUVWXYZ'' ''abcdefghijklmnopqrstuvwxyz'') c of
        Some l \<Rightarrow> l
      | None \<Rightarrow> c)"

definition toLowerCase :: "string \<Rightarrow> string" where
  "toLowerCase s = map lower_char s"

text \<open>\<open>s.replace(/pat/g, '')\<close> for a literal pattern: every occurrence, left to right.\<close>

fun remove_all :: "string \<Rightarrow> string \<Rightarrow> string" where
  "remove_all pat [] = []"
| "remove_all pat (c # cs) =
     (if pat \<noteq> [] \<and> prefix pat (c # cs) then remove_all pat (drop (length pat - 1) cs)
      else c # remove_all pat cs)"

definition is_space :: "char \<Rightarrow> bool" where
  "is_space c = ((of_char c :: nat) \<in> {9, 10, 11, 12, 13, 32, 160})"

definition trim :: "string \<Rightarrow> string" where
  "trim s = rev (dropWhile is_space (rev (dropWhile is_space s)))"

definition fence :: string where
  "fence = [CHR 0x60, CHR 0x60, CHR 0x60]"

text \<open>
  \<open>s.match(/<!DOCTYPE[\s\S]*<\/html>/i)\<close>: the leftmost position where the document type
  starts and a closing root tag follows, up to the last such closing tag. \<open>last_end pat s\<close>
  is the position just after the last occurrence of \<open>pat\<close> in \<open>s\<close>, letters compared
  without case.
\<close>

fun last_end :: "string \<Rightarrow> string \<Rightarrow> nat option" where
  "last_end pat [] = None"
| "last_end pat (c # cs) =
     (case last_end pat cs of
        Some k \<Rightarrow> Some (Suc k)
      | None \<Rightarrow> if prefix pat (toLowerCase (c # cs)) then Some (length pat) else None)"

fun doctype_match :: "string \<Rightarrow> string option" where
  "doctype_match [] = None"
| "doctype_match (c # cs) =
     (if prefix ''<!doctype'' (toLowerCase (c # cs))
      then (case last_end ''</html>'' (drop 8 cs) of
              Some k \<Rightarrow> Some (take (9 + k) (c # cs))
            | None \<Rightarrow> doctype_match cs)
      else doctype_match cs)"

subsection \<open>The generative model\<close>

text \<open>
  The model call, as the route sees it. The key of the process environment is handed to the
  client when the module loads; the function never looks at it, and building the client and
  naming the model (\<open>getGenerativeModel\<close>, before the \<open>try\<close>) sends nothing and does not
  throw. \<open>gemini_reply\<close> is what \<open>generateContent\<close> followed by \<open>response.text()\<close> gives for a
  prompt: a text or an exception, as the service decides.
\<close>

record model_provider =
  GEMINI_API_KEY :: "string option"
  gemini_reply :: "string \<Rightarrow> string result"

definition generateContent :: "model_provider \<Rightarrow> string \<Rightarrow> string result" where
  "generateContent mp p = gemini_reply mp p"

text \<open>The \<open>try\<close> block of \<open>generateWebsiteContent\<close>, given the prompt built before it.\<close>

definition model_request ::
  "model_provider \<Rightarrow> string \<Rightarrow> ProductSummary \<Rightarrow> ImageAsset list \<Rightarrow> ImageAsset list
     \<Rightarrow> ImageAsset list \<Rightarrow> string result" where
  "model_request mp request_text productInfo heroImages featureImages testimonialImages =
     bnd (generateContent mp request_text)
       (\<lambda>text.
          let websiteHTML = trim (remove_all fence (remove_all (fence @ ''html'') text))
          in if \<not> sublist ''<!doctype'' (toLowerCase websiteHTML)
                \<and> \<not> sublist ''<html'' (toLowerCase websiteHTML)
             then (case doctype_match websiteHTML of
                     Some htmlMatch \<Rightarrow> Inr htmlMatch
                   | None \<Rightarrow>
                       generateProfessionalTemplate productInfo heroImages featureImages
                         testimonialImages)
             else Inr websiteHTML)"

text \<open>
  The images, the prompt, then the \<open>try\<close> with its \<open>catch\<close>. The prompt literal stands
  before the \<open>try\<close>: an exception of its conversions leaves the function.
\<close>

definition generateWebsiteContent ::
  "image_provider \<Rightarrow> model_provider \<Rightarrow> ProductSummary \<Rightarrow> string result" where
  "generateWebsiteContent ip mp productInfo =
     bnd (getUnsplashImages ip (title productInfo @ '' product lifestyle'') 1) (\<lambda>heroImages.
     bnd (getUnsplashImages ip (title productInfo @ '' benefits features'') 2) (\<lambda>featureImages.
     bnd (getUnsplashImages ip ''happy customer testimonial'' 1) (\<lambda>testimonialImages.
     bnd (prompt productInfo heroImages featureImages testimonialImages) (\<lambda>request_text.
       case model_request mp request_text productInfo heroImages featureImages
              testimonialImages of
         Inl e \<Rightarrow>
           generateProfessionalTemplate productInfo heroImages featureImages testimonialImages
       | Inr websiteHTML \<Rightarrow> Inr websiteHTML))))"


section \<open>Deployment Publisher: deployToNetlify\<close>

text \<open>
  \<open>siteData\<close> as the function reads it, and the hosting service: the token from the process
  environment, the reply to the site creation (by site name) and the reply to the deploy
  (by site id and body). A parsed reply is \<open>None\<close> when it is null, so that reading \<open>id\<close>
  of it throws.
\<close>

record site_data =
  site_id :: jsval
  ssl_url :: jsval
  site_url :: jsval
  admin_url :: jsval

record hosting =
  NETLIFY_ACCESS_TOKEN :: "string option"
  create_site :: "string \<Rightarrow> site_data option result fetched"
  deploy_site :: "string \<Rightarrow> string \<Rightarrow> jsval option result fetched"

record deployment =
  dep_url :: jsval
  deploy_id :: jsval
  dep_site_id :: jsval
  dep_admin_url :: jsval

definition createZipFromHTML :: "string \<Rightarrow> string" where
  "createZipFromHTML html = html"

text \<open>
  The \<open>try\<close> block after the token check. The first component lists the network calls
  made, by their addresses, in order.
\<close>

definition deploy_request :: "hosting \<Rightarrow> string \<Rightarrow> string \<Rightarrow> string list \<times> deployment result" where
  "deploy_request h websiteHTML siteName =
     (let sites = ''https://api.netlify.com/api/v1/sites''
      in case create_site h siteName of
           NetworkFailure \<Rightarrow> ([sites], Inl NetworkError)
         | Response code json \<Rightarrow>
             if \<not> ok code then ([sites], Inl (HttpError code))
             else (case json of
                     Inl e \<Rightarrow> ([sites], Inl e)
                   | Inr None \<Rightarrow> ([sites], Inl TypeError)
                   | Inr (Some siteData) \<Rightarrow>
                       (let siteId = site_id siteData
                        in case to_string siteId of
                             Inl e \<Rightarrow> ([sites], Inl e)
                           | Inr siteId_text \<Rightarrow>
                               (let deploys = sites @ ''/'' @ siteId_text @ ''/deploys''
                                in case deploy_site h siteId_text (createZipFromHTML websiteHTML) of
                                     NetworkFailure \<Rightarrow> ([sites, deploys], Inl NetworkError)
                                   | Response code2 json2 \<Rightarrow>
                                       if \<not> ok code2 then ([sites, deploys], Inl (HttpError code2))
                                       else (case json2 of
                                               Inl e \<Rightarrow> ([sites, deploys], Inl e)
                                             | Inr None \<Rightarrow> ([sites, deploys], Inl TypeError)
                                             | Inr (Some deployId) \<Rightarrow>
                                                 ([sites, deploys],
                                                  Inr \<lparr> dep_url =
                                                          js_or (ssl_url siteData) (site_url siteData),
                                                        deploy_id = deployId,
                                                        dep_site_id = siteId,
                                                        dep_admin_url = admin_url siteData \<rparr>))))))"

definition deployToNetlify ::
  "hosting \<Rightarrow> string \<Rightarrow> string \<Rightarrow> string list \<times> deployment option result" where
  "deployToNetlify h websiteHTML siteName =
     (if \<not> env_set (NETLIFY_ACCESS_TOKEN h) then ([], Inr None)
      else (case deploy_request h websiteHTML siteName of
              (calls, Inl e) \<Rightarrow> (calls, Inr None)
            | (calls, Inr d) \<Rightarrow> (calls, Inr (Some d))))"


section \<open>Quota Gate and Pipeline Orchestrator: getPlanLimits, verifyUser, POST\<close>

subsection \<open>Numbers as text\<close>

definition digit_char :: "nat \<Rightarrow> char" where
  "digit_char d = ''0123456789'' ! d"

function dec :: "nat \<Rightarrow> string" where
  "dec n = (if n < 10 then [digit_char n] else dec (n div 10) @ [digit_char (n mod 10)])"
  by pat_completeness auto
termination
  by (relation "measure id") auto

declare dec.simps [simp del]

definition show_int :: "int \<Rightarrow> string" where
  "show_int i = (if i < 0 then ''-'' @ dec (nat (- i)) else dec (nat i))"

subsection \<open>Plans\<close>

record limits =
  websites :: int

definition getPlanLimits :: "string \<Rightarrow> limits" where
  "getPlanLimits p =
     (if p = ''basic'' then \<lparr> websites = 3 \<rparr>
      else if p = ''pro'' then \<lparr> websites = 10 \<rparr>
      else if p = ''enterprise'' then \<lparr> websites = 999 \<rparr>
      else \<lparr> websites = 3 \<rparr>)"

subsection \<open>Stored documents\<close>

text \<open>
  A user document: \<open>websiteCount\<close> is \<open>None\<close> while the field is missing, \<open>authToken\<close> is
  the field the session cookie is matched against. Object ids are written as their text.
\<close>

record UserData =
  user_id :: string
  email :: string
  plan :: string
  websiteCount :: "int option"
  authToken :: "string option"

record WebsiteRecord =
  ws_id :: string
  ws_userId :: string
  ws_slug :: string
  ws_title :: string
  ws_description :: string
  ws_productUrl :: jsval
  ws_html :: string
  ws_productInfo :: ProductSummary
  ws_netlifyDeployment :: "deployment option"
  ws_createdAt :: nat
  ws_updatedAt :: nat
  ws_views :: int
  ws_clicks :: int
  ws_isActive :: bool

record database =
  users_collection :: "UserData list"
  websites_collection :: "WebsiteRecord list"

text \<open>
  What the storage calls of one request do: each flag says that the call rejects. A call
  that rejects changes nothing.
\<close>

record storage =
  verify_connect_fails :: bool
  verify_find_fails :: bool
  connect_fails :: bool
  insert_fails :: bool
  update_fails :: bool

text \<open>\<open>updateOne({ _id }, { $inc: { websiteCount: 1 } })\<close>: the first document with the id.\<close>

fun inc_websiteCount :: "string \<Rightarrow> UserData list \<Rightarrow> UserData list" where
  "inc_websiteCount uid [] = []"
| "inc_websiteCount uid (u # us) =
     (if user_id u = uid
      then u\<lparr> websiteCount := Some ((case websiteCount u of None \<Rightarrow> 0 | Some n \<Rightarrow> n) + 1) \<rparr> # us
      else u # inc_websiteCount uid us)"

subsection \<open>Requests and responses\<close>

text \<open>
  A request: the \<open>auth-token\<close> cookie, and what \<open>request.json()\<close> gives, the parsed body
  or an exception when the body is not JSON. \<open>const { productUrl } = await request.json()\<close>
  then reads the property: any JSON value, or undefined.
\<close>

record request =
  auth_token_cookie :: "string option"
  json_body :: "jsval result"

definition read_productUrl :: "request \<Rightarrow> jsval result" where
  "read_productUrl req = bnd (json_body req) (\<lambda>b. property b ''productUrl'')"

record website_view =
  view_id :: string
  view_slug :: string
  view_title :: string
  view_description :: string
  view_url :: jsval
  previewUrl :: string
  netlifyUrl :: jsval
  adminUrl :: jsval

record success =
  website :: website_view
  message :: string
  remainingWebsites :: int
  deployment_status :: string
  deployment_platform :: string

datatype body =
    ErrorBody string
  | QuotaBody string string int int
  | SuccessBody success
  | FailureBody string string

record response =
  status :: nat
  body :: body

definition internal_error :: response where
  "internal_error =
     \<lparr> status = 500,
       body = FailureBody ''Failed to create website''
         ''An error occurred while creating your affiliate website. Please try again.'' \<rparr>"

subsection \<open>The services one request meets\<close>

record services =
  images :: image_provider
  pages :: page_source
  model :: model_provider
  host :: hosting
  store :: storage
  NEXT_PUBLIC_APP_URL :: "string option"
  date_now :: nat
  new_object_id :: string
  created_at :: nat
  updated_at :: nat

subsection \<open>verifyUser\<close>

definition verifyUser_request :: "storage \<Rightarrow> database \<Rightarrow> request \<Rightarrow> UserData option result" where
  "verifyUser_request st db req =
     (if \<not> env_set (auth_token_cookie req) then Inr None
      else if verify_connect_fails st then Inl StorageError
      else if verify_find_fails st then Inl StorageError
      else Inr (find (\<lambda>u. authToken u = auth_token_cookie req) (users_collection db)))"

definition verifyUser :: "storage \<Rightarrow> database \<Rightarrow> request \<Rightarrow> UserData option result" where
  "verifyUser st db req =
     (case verifyUser_request st db req of
        Inl e \<Rightarrow> Inr None
      | Inr u \<Rightarrow> Inr u)"

subsection \<open>POST, in the three parts its awaits separate\<close>

text \<open>
  Authentication, input and quota: the statements up to the limit check. The result is the
  response the handler returns there, or what the later statements use.
\<close>

record admitted =
  adm_user :: UserData
  adm_productUrl :: jsval
  adm_limits :: limits
  adm_currentWebsiteCount :: int

definition admission :: "services \<Rightarrow> database \<Rightarrow> request \<Rightarrow> response + admitted" where
  "admission sv db req =
     (case verifyUser (store sv) db req of
        Inl e \<Rightarrow> Inl internal_error
      | Inr None \<Rightarrow> Inl \<lparr> status = 401, body = ErrorBody ''Authentication required'' \<rparr>
      | Inr (Some u) \<Rightarrow>
          (case read_productUrl req of
             Inl e \<Rightarrow> Inl internal_error
           | Inr productUrl \<Rightarrow>
               if \<not> truthy productUrl
               then Inl \<lparr> status = 400, body = ErrorBody ''Product URL is required'' \<rparr>
               else
                 (let lim = getPlanLimits (plan u);
                      currentWebsiteCount = (case websiteCount u of None \<Rightarrow> 0 | Some n \<Rightarrow> n)
                  in if currentWebsiteCount \<ge> websites lim
                     then Inl \<lparr> status = 403,
                                body = QuotaBody ''Website limit reached''
                                  (''Your '' @ plan u @ '' plan allows '' @ show_int (websites lim)
                                     @ '' websites. Please upgrade to create more.'')
                                  currentWebsiteCount (websites lim) \<rparr>
                     else Inr \<lparr> adm_user = u,
                                adm_productUrl = productUrl,
                                adm_limits = lim,
                                adm_currentWebsiteCount = currentWebsiteCount \<rparr>)))"

text \<open>Analysis, synthesis, slug and deployment: no storage is touched.\<close>

definition slug_char :: "char \<Rightarrow> char" where
  "slug_char c =
     (let n = (of_char c :: nat)
      in if (97 \<le> n \<and> n \<le> 122) \<or> (48 \<le> n \<and> n \<le> 57) then c else CHR ''-'')"

definition make_slug :: "string \<Rightarrow> nat \<Rightarrow> string" where
  "make_slug t now = map slug_char (toLowerCase t) @ ''-'' @ dec now"

record generated =
  gen_productInfo :: ProductSummary
  gen_websiteHTML :: string
  gen_slug :: string
  gen_netlifyDeployment :: "deployment option"
  gen_calls :: "string list"

definition generation :: "services \<Rightarrow> jsval \<Rightarrow> generated result" where
  "generation sv productUrl =
     bnd (analyzeProductURL (pages sv) productUrl) (\<lambda>productInfo.
     bnd (generateWebsiteContent (images sv) (model sv) productInfo) (\<lambda>websiteHTML.
       let slug = make_slug (title productInfo) (date_now sv)
       in case deployToNetlify (host sv) websiteHTML slug of
            (calls, r) \<Rightarrow>
              bnd r (\<lambda>netlifyDeployment.
                Inr \<lparr> gen_productInfo = productInfo,
                      gen_websiteHTML = websiteHTML,
                      gen_slug = slug,
                      gen_netlifyDeployment = netlifyDeployment,
                      gen_calls = calls \<rparr>)))"

text \<open>Persisting and the response.\<close>

definition app_url :: "services \<Rightarrow> string" where
  "app_url sv = opt_or (NEXT_PUBLIC_APP_URL sv) ''https://affilify.eu''"

definition deployed_url :: "deployment option \<Rightarrow> jsval" where
  "deployed_url d = (case d of None \<Rightarrow> Undefined | Some x \<Rightarrow> dep_url x)"

text \<open>The document \<open>websiteData\<close> and the body of the success response.\<close>

definition websiteData :: "services \<Rightarrow> admitted \<Rightarrow> generated \<Rightarrow> WebsiteRecord" where
  "websiteData sv a g =
     \<lparr> ws_id = new_object_id sv,
       ws_userId = user_id (adm_user a),
       ws_slug = gen_slug g,
       ws_title = title (gen_productInfo g),
       ws_description = description (gen_productInfo g),
       ws_productUrl = adm_productUrl a,
       ws_html = gen_websiteHTML g,
       ws_productInfo = gen_productInfo g,
       ws_netlifyDeployment = gen_netlifyDeployment g,
       ws_createdAt = created_at sv,
       ws_updatedAt = updated_at sv,
       ws_views = 0,
       ws_clicks = 0,
       ws_isActive = True \<rparr>"

definition created :: "services \<Rightarrow> admitted \<Rightarrow> generated \<Rightarrow> response" where
  "created sv a g =
     (let slug = gen_slug g;
          netlifyDeployment = gen_netlifyDeployment g;
          liveUrl = js_or (deployed_url netlifyDeployment) (Str (app_url sv @ ''/websites/'' @ slug))
      in \<lparr> status = 200,
            body = SuccessBody
              \<lparr> website =
                  \<lparr> view_id = ws_id (websiteData sv a g),
                    view_slug = slug,
                    view_title = title (gen_productInfo g),
                    view_description = description (gen_productInfo g),
                    view_url = liveUrl,
                    previewUrl = app_url sv @ ''/preview/'' @ slug,
                    netlifyUrl = js_or (deployed_url netlifyDeployment) Null,
                    adminUrl =
                      js_or (case netlifyDeployment of
                               None \<Rightarrow> Undefined
                             | Some x \<Rightarrow> dep_admin_url x) Null \<rparr>,
                message = ''Professional affiliate website created and deployed successfully!'',
                remainingWebsites = websites (adm_limits a) - adm_currentWebsiteCount a - 1,
                deployment_status =
                  (if netlifyDeployment \<noteq> None then ''deployed'' else ''local''),
                deployment_platform =
                  (if netlifyDeployment \<noteq> None then ''netlify'' else ''affilify'') \<rparr> \<rparr>)"

text \<open>
  Connect, insert the document, increment the counter, answer. The two writes are two
  calls: a call that rejects leaves the earlier one done.
\<close>

definition persist ::
  "services \<Rightarrow> database \<Rightarrow> admitted \<Rightarrow> generated \<Rightarrow> response \<times> database" where
  "persist sv db a g =
     (if connect_fails (store sv) then (internal_error, db)
      else if insert_fails (store sv) then (internal_error, db)
      else
        (let db1 = db\<lparr> websites_collection := websites_collection db @ [websiteData sv a g] \<rparr>
         in if update_fails (store sv) then (internal_error, db1)
            else
              (let db2 = db1\<lparr> users_collection :=
                                  inc_websiteCount (user_id (adm_user a)) (users_collection db1) \<rparr>
               in (created sv a g, db2))))"

text \<open>The handler: an exception anywhere is caught by its outer \<open>catch\<close> and answered with 500.\<close>

definition POST :: "services \<Rightarrow> database \<Rightarrow> request \<Rightarrow> response \<times> database" where
  "POST sv db req =
     (case admission sv db req of
        Inl r \<Rightarrow> (r, db)
      | Inr a \<Rightarrow>
          (case generation sv (adm_productUrl a) of
             Inl e \<Rightarrow> (internal_error, db)
           | Inr g \<Rightarrow> persist sv db a g))"


section \<open>Token verification: verifyToken\<close>

text \<open>
  The token library: \<open>jwt.verify\<close> gives the payload or throws (bad signature, expired,
  malformed); \<open>jwt.decode\<close> reads the payload without checking anything and gives null
  (\<open>None\<close>) when there is none. Of a payload the function reads \<open>userId\<close>.
\<close>

record token_payload =
  userId :: jsval

record jwt_library =
  JWT_SECRET :: "string option"
  jwt_verify :: "string \<Rightarrow> string \<Rightarrow> token_payload result"
  jwt_decode :: "string \<Rightarrow> token_payload option result"

definition verifyToken :: "jwt_library \<Rightarrow> string \<Rightarrow> token_payload option result" where
  "verifyToken jl token =
     (case jwt_verify jl token (opt_or (JWT_SECRET jl) ''your-super-secret-jwt-key'') of
        Inr decoded \<Rightarrow> Inr (Some decoded)
      | Inl e \<Rightarrow>
          (case jwt_decode jl token of
             Inl decodeError \<Rightarrow> Inr None
           | Inr None \<Rightarrow> Inr None
           | Inr (Some decodedFallback) \<Rightarrow>
               if truthy (userId decodedFallback) then Inr (Some decodedFallback) else Inr None))"

section \<open>Two handlers on one store\<close>

text \<open>
  A handler gives up control at every \<open>await\<close>, so two requests interleave. The stages below
  cut the handler where \<open>POST\<close> is cut above; a step of the system is a step of either
  handler on the shared store.
\<close>

datatype handler =
    Start request
  | Admitted admitted
  | Generated admitted generated
  | Done response

fun handler_step :: "services \<Rightarrow> database \<Rightarrow> handler \<Rightarrow> handler \<times> database" where
  "handler_step sv db (Start req) =
     (case admission sv db req of
        Inl r \<Rightarrow> (Done r, db)
      | Inr a \<Rightarrow> (Admitted a, db))"
| "handler_step sv db (Admitted a) =
     (case generation sv (adm_productUrl a) of
        Inl e \<Rightarrow> (Done internal_error, db)
      | Inr g \<Rightarrow> (Generated a g, db))"
| "handler_step sv db (Generated a g) =
     (case persist sv db a g of (r, db') \<Rightarrow> (Done r, db'))"
| "handler_step sv db (Done r) = (Done r, db)"

inductive system_step ::
  "services \<Rightarrow> services \<Rightarrow> handler \<times> handler \<times> database \<Rightarrow> handler \<times> handler \<times> database \<Rightarrow> bool"
  for svA svB where
    first_steps:
      "handler_step svA db hA = (hA', db') \<Longrightarrow> system_step svA svB (hA, hB, db) (hA', hB, db')"
  | second_steps:
      "handler_step svB db hB = (hB', db') \<Longrightarrow> system_step svA svB (hA, hB, db) (hA, hB', db')"


section \<open>Notions of the specification\<close>

text \<open>A document is recognised as a page by the markers the synthesizer itself looks for.\<close>

definition has_root_marker :: "string \<Rightarrow> bool" where
  "has_root_marker doc =
     (sublist ''<!doctype'' (toLowerCase doc) \<or> sublist ''<html'' (toLowerCase doc))"

text \<open>
  A value converts to text when the conversion does not throw: every string, number,
  boolean, null and undefined does. The addresses of a provider convert when the address
  of every image it gives for any query does.
\<close>

definition convertible :: "jsval \<Rightarrow> bool" where
  "convertible v = (case to_string v of Inl e \<Rightarrow> False | Inr s \<Rightarrow> True)"

text \<open>The images sourced for a query, and the fallback document built from them.\<close>

definition sourced :: "image_provider \<Rightarrow> string \<Rightarrow> int \<Rightarrow> ImageAsset list" where
  "sourced ip query count =
     (case getUnsplashImages ip query count of Inl e \<Rightarrow> [] | Inr assets \<Rightarrow> assets)"

definition addresses_convert :: "image_provider \<Rightarrow> bool" where
  "addresses_convert ip = (\<forall>query count. \<forall>a \<in> set (sourced ip query count). convertible (url a))"

definition hero_images :: "image_provider \<Rightarrow> ProductSummary \<Rightarrow> ImageAsset list" where
  "hero_images ip productInfo = sourced ip (title productInfo @ '' product lifestyle'') 1"

definition feature_images :: "image_provider \<Rightarrow> ProductSummary \<Rightarrow> ImageAsset list" where
  "feature_images ip productInfo = sourced ip (title productInfo @ '' benefits features'') 2"

definition testimonial_images :: "image_provider \<Rightarrow> ImageAsset list" where
  "testimonial_images ip = sourced ip ''happy customer testimonial'' 1"

definition address :: "ImageAsset list \<Rightarrow> nat \<Rightarrow> string" where
  "address assets i = (case url_or_default assets i of Inl e \<Rightarrow> [] | Inr s \<Rightarrow> s)"

definition fallback_document :: "image_provider \<Rightarrow> ProductSummary \<Rightarrow> string" where
  "fallback_document ip productInfo =
     (case generateProfessionalTemplate productInfo (hero_images ip productInfo)
             (feature_images ip productInfo) (testimonial_images ip) of
        Inl e \<Rightarrow> []
      | Inr doc \<Rightarrow> doc)"

text \<open>
  The model's answer is unusable when the call throws, or when the text, once the fences
  are stripped and it is trimmed, holds neither marker.
\<close>

definition model_unusable ::
  "image_provider \<Rightarrow> model_provider \<Rightarrow> ProductSummary \<Rightarrow> bool" where
  "model_unusable ip mp productInfo =
     (case prompt productInfo (hero_images ip productInfo) (feature_images ip productInfo)
             (testimonial_images ip) of
        Inl e \<Rightarrow> False
      | Inr request_text \<Rightarrow>
          (case generateContent mp request_text of
             Inl e \<Rightarrow> True
           | Inr text \<Rightarrow>
               \<not> has_root_marker (trim (remove_all fence (remove_all (fence @ ''html'') text)))))"

text \<open>
  The provider's results when the search succeeds: the key is set, the status is a
  success, the body parses, \<open>results\<close> is an array and every element has the objects the
  callback reads from, with a photographer's name that converts to text.
\<close>

definition well_formed :: "photo option \<Rightarrow> bool" where
  "well_formed p =
     (case p of
        None \<Rightarrow> False
      | Some ph \<Rightarrow>
          urls ph \<noteq> None \<and> links ph \<noteq> None \<and>
          (case user ph of None \<Rightarrow> False | Some name \<Rightarrow> convertible name))"

definition provider_results :: "image_provider \<Rightarrow> string \<Rightarrow> int \<Rightarrow> photo option list option" where
  "provider_results ip query count =
     (if \<not> env_set (UNSPLASH_ACCESS_KEY ip) then None
      else (case unsplash_search ip query count of
              NetworkFailure \<Rightarrow> None
            | Response code json \<Rightarrow>
                if \<not> ok code then None
                else (case json of
                        Inl e \<Rightarrow> None
                      | Inr NoArray \<Rightarrow> None
                      | Inr (Results ps) \<Rightarrow> if list_all well_formed ps then Some ps else None)))"

text \<open>The page could not be read: no response, a status outside 200 to 299, or no body.\<close>

definition fetch_failed :: "page_source \<Rightarrow> jsval \<Rightarrow> bool" where
  "fetch_failed ps u =
     (case fetch_page ps u of
        NetworkFailure \<Rightarrow> True
      | Response code text \<Rightarrow> \<not> ok code \<or> isl text)"

text \<open>Quota admission: the recorded usage, the decision, and the tiers as the specification has them.\<close>

definition currentUsage :: "UserData \<Rightarrow> int" where
  "currentUsage u = (case websiteCount u of None \<Rightarrow> 0 | Some n \<Rightarrow> n)"

definition allowed :: "response + admitted \<Rightarrow> bool" where
  "allowed r = (case r of Inl resp \<Rightarrow> False | Inr a \<Rightarrow> True)"

datatype tier = Basic | Pro | Enterprise

fun tier_name :: "tier \<Rightarrow> string" where
  "tier_name Basic = ''basic''"
| "tier_name Pro = ''pro''"
| "tier_name Enterprise = ''enterprise''"

fun spec_ceiling :: "tier \<Rightarrow> enat" where
  "spec_ceiling Basic = 3"
| "spec_ceiling Pro = 10"
| "spec_ceiling Enterprise = \<infinity>"

definition storage_fault :: "storage \<Rightarrow> bool" where
  "storage_fault st = (connect_fails st \<or> insert_fails st \<or> update_fails st)"

text \<open>What a response tells the caller about the site's addresses.\<close>

definition response_url :: "response \<Rightarrow> jsval option" where
  "response_url r = (case body r of SuccessBody s \<Rightarrow> Some (view_url (website s)) | _ \<Rightarrow> None)"

definition response_previewUrl :: "response \<Rightarrow> string option" where
  "response_previewUrl r =
     (case body r of SuccessBody s \<Rightarrow> Some (previewUrl (website s)) | _ \<Rightarrow> None)"

text \<open>The account a session token belongs to, as a later request would read it.\<close>

definition account :: "database \<Rightarrow> string \<Rightarrow> UserData option" where
  "account db token = find (\<lambda>u. authToken u = Some token) (users_collection db)"


section \<open>Example services\<close>

text \<open>
  A deployment with no key for any service and a merchant that cannot be reached; the
  storage works. One basic account, \<open>ada\<close>, holds the session token \<open>t-ada\<close>.
\<close>

definition no_images :: image_provider where
  "no_images = \<lparr> UNSPLASH_ACCESS_KEY = None, unsplash_search = (\<lambda>q n. NetworkFailure) \<rparr>"

definition no_pages :: page_source where
  "no_pages =
     \<lparr> fetch_page = (\<lambda>u. NetworkFailure),
       cheerio_load =
         (\<lambda>html. \<lparr> title_text = [], h1_first_text = [], product_title_text = [],
                    meta_description = None, og_description = None, p_first_text = [],
                    testid_price_text = [], price_class_first_text = [],
                    price_like_class_first_text = [] \<rparr>) \<rparr>"

definition no_model :: model_provider where
  "no_model = \<lparr> GEMINI_API_KEY = None, gemini_reply = (\<lambda>p. Inl ModelError) \<rparr>"

definition no_host :: hosting where
  "no_host =
     \<lparr> NETLIFY_ACCESS_TOKEN = None,
       create_site = (\<lambda>n. NetworkFailure),
       deploy_site = (\<lambda>i b. NetworkFailure) \<rparr>"

definition working_store :: storage where
  "working_store =
     \<lparr> verify_connect_fails = False, verify_find_fails = False, connect_fails = False,
       insert_fails = False, update_fails = False \<rparr>"

definition bare_services :: services where
  "bare_services =
     \<lparr> images = no_images, pages = no_pages, model = no_model, host = no_host,
       store = working_store, NEXT_PUBLIC_APP_URL = None, date_now = 1700000000000,
       new_object_id = ''65f000000000000000000001'', created_at = 1700000000001,
       updated_at = 1700000000002 \<rparr>"

definition ada :: "int option \<Rightarrow> string \<Rightarrow> UserData" where
  "ada n p =
     \<lparr> user_id = ''65e000000000000000000001'', email = ''ada@example.com'', plan = p,
       websiteCount = n, authToken = Some ''t-ada'' \<rparr>"

definition store_with :: "UserData \<Rightarrow> database" where
  "store_with u = \<lparr> users_collection = [u], websites_collection = [] \<rparr>"

definition ada_request :: request where
  "ada_request =
     \<lparr> auth_token_cookie = Some ''t-ada'',
       json_body = Inr (Obj [(''productUrl'', Str ''https://example.com/product'')]) \<rparr>"

text \<open>The same services with a store whose counter update rejects, and two stores for \<open>ada\<close>.\<close>

definition failing_update :: services where
  "failing_update = bare_services\<lparr> store := working_store\<lparr> update_fails := True \<rparr> \<rparr>"

definition basic_store :: database where
  "basic_store = store_with (ada (Some 0) ''basic'')"

definition two_sites :: database where
  "two_sites = store_with (ada (Some 2) ''basic'')"

text \<open>An image provider that answers the hero query with one photo and nothing else.\<close>

definition hero_photo :: photo where
  "hero_photo =
     \<lparr> urls = Some (Str ''https://img.example/hero~1'', Str ''https://img.example/hero~1-thumb''),
       alt_description = Null,
       user = Some (Str ''Grace''),
       links = Some (Str ''https://img.example/hero~1/download'') \<rparr>"

definition hero_only :: image_provider where
  "hero_only =
     \<lparr> UNSPLASH_ACCESS_KEY = Some ''key'',
       unsplash_search =
         (\<lambda>q n. if q = ''Widget product lifestyle''
                 then Response 200 (Inr (Results [Some hero_photo]))
                 else NetworkFailure) \<rparr>"

definition widget :: ProductSummary where
  "widget =
     \<lparr> title = ''Widget'', description = ''A widget.'', price = ''$5'',
       originalUrl = Str ''https://example.com/widget'' \<rparr>"

text \<open>
  A model service that answers with a page although no key is configured, a request whose
  product address is an object with a property named \<open>toString\<close>, and a request whose body
  is no JSON.
\<close>

definition keyless_model :: model_provider where
  "keyless_model =
     \<lparr> GEMINI_API_KEY = None,
       gemini_reply = (\<lambda>p. Inr ''<html><body>Widget</body></html>'') \<rparr>"

definition object_url :: jsval where
  "object_url = Obj [(''toString'', Num False ''1'')]"



text \<open>An image search that succeeds and finds nothing.\<close>

definition empty_search :: image_provider where
  "empty_search =
     \<lparr> UNSPLASH_ACCESS_KEY = Some ''key'',
       unsplash_search = (\<lambda>q n. Response 200 (Inr (Results []))) \<rparr>"

text \<open>A token whose signature does not verify and whose payload holds an empty \<open>userId\<close>.\<close>

definition forged_empty :: jwt_library where
  "forged_empty =
     \<lparr> JWT_SECRET = None,
       jwt_verify = (\<lambda>t k. Inl SyntaxError),
       jwt_decode = (\<lambda>t. Inr (Some \<lparr> userId = Str [] \<rparr>)) \<rparr>"

definition forged_user :: jwt_library where
  "forged_user =
     \<lparr> JWT_SECRET = None,
       jwt_verify = (\<lambda>t k. Inl SyntaxError),
       jwt_decode = (\<lambda>t. Inr (Some \<lparr> userId = Str ''u1'' \<rparr>)) \<rparr>"


section \<open>Properties of the Asset Sourcer\<close>

lemma placeholder_loop_replicate:
  "placeholder_loop q n i acc = acc @ replicate (nat (n - i)) (placeholder q)"
proof (induction q n i acc rule: placeholder_loop.induct)
  case (1 query count i assets)
  show ?case
  proof (cases "i < count")
    case True
    then have "nat (count - i) = Suc (nat (count - (i + 1)))" by simp
    with True 1 show ?thesis
      by (simp add: replicate_app_Cons_same placeholder_loop.simps[of query count i assets])
  next
    case False
    then show ?thesis by (simp add: placeholder_loop.simps[of query count i assets])
  qed
qed

lemma generatePlaceholderImages_replicate:
  "generatePlaceholderImages q n = replicate (nat n) (placeholder q)"
  by (simp add: generatePlaceholderImages_def placeholder_loop_replicate)

lemma map_result_length: "map_result f xs = Inr ys \<Longrightarrow> length ys = length xs"
  by (induction xs arbitrary: ys) (auto split: sum.splits)

lemma photo_to_asset_well_formed:
  "well_formed p \<Longrightarrow> \<exists>a. photo_to_asset q p = Inr a"
  by (auto simp: well_formed_def photo_to_asset_def convertible_def split: option.splits sum.splits)

lemma photo_to_asset_malformed:
  "\<not> well_formed p \<Longrightarrow> \<exists>e. photo_to_asset q p = Inl e"
  by (auto simp: well_formed_def photo_to_asset_def convertible_def split: option.splits sum.splits)

lemma map_result_well_formed:
  "list_all well_formed ps \<Longrightarrow> \<exists>assets. map_result (photo_to_asset q) ps = Inr assets"
proof (induction ps)
  case Nil
  then show ?case by simp
next
  case (Cons p ps)
  then obtain a assets where "photo_to_asset q p = Inr a" "map_result (photo_to_asset q) ps = Inr assets"
    using photo_to_asset_well_formed by fastforce
  then show ?case by simp
qed

lemma map_result_malformed:
  "\<not> list_all well_formed ps \<Longrightarrow> \<exists>e. map_result (photo_to_asset q) ps = Inl e"
proof (induction ps)
  case Nil
  then show ?case by simp
next
  case (Cons p ps)
  then show ?case
    using photo_to_asset_malformed[of p q]
    by (cases "well_formed p") (auto split: sum.splits)
qed

lemma getUnsplashImages_fallback:
  "provider_results ip q n = None \<Longrightarrow>
     getUnsplashImages ip q n = Inr (replicate (nat n) (placeholder q))"
  using map_result_malformed[of _ q]
  by (fastforce simp: provider_results_def getUnsplashImages_def unsplash_request_def bnd_def
        generatePlaceholderImages_replicate
      split: if_splits fetched.splits sum.splits unsplash_data.splits)

lemma getUnsplashImages_provider:
  "provider_results ip q n = Some ps \<Longrightarrow>
     \<exists>assets. getUnsplashImages ip q n = Inr assets \<and> map_result (photo_to_asset q) ps = Inr assets"
  using map_result_well_formed[of _ q]
  by (fastforce simp: provider_results_def getUnsplashImages_def unsplash_request_def bnd_def
      split: if_splits fetched.splits sum.splits unsplash_data.splits)

text \<open>
  Claim C4, as the code has it. \<open>getUnsplashImages\<close> never fails. When the key is missing,
  the request fails, the status is not a success, the body does not parse or the payload
  is malformed (a photographer's name that cannot be converted to text among the ways), it
  returns \<open>n\<close> copies (none for a negative \<open>n\<close>) of the fixed placeholder,
  whose attribution is "Professional stock photo" and whose download reference is null.
  When the search succeeds it returns one asset for each result of the payload, in the
  payload's order: as many as the provider sent, whatever \<open>n\<close> was.
\<close>

theorem getUnsplashImages_result:
  "\<exists>assets. getUnsplashImages ip q n = Inr assets \<and>
     (case provider_results ip q n of
        None \<Rightarrow> assets = replicate (nat n) (placeholder q)
      | Some ps \<Rightarrow> map_result (photo_to_asset q) ps = Inr assets \<and> length assets = length ps) \<and>
     credit (placeholder q) = ''Professional stock photo'' \<and>
     download_url (placeholder q) = Null"
proof (cases "provider_results ip q n")
  case None
  then show ?thesis
    by (simp add: getUnsplashImages_fallback placeholder_def)
next
  case (Some ps)
  then obtain assets where
    "getUnsplashImages ip q n = Inr assets" "map_result (photo_to_asset q) ps = Inr assets"
    using getUnsplashImages_provider by blast
  with Some show ?thesis
    by (simp add: map_result_length placeholder_def)
qed

text \<open>
  Claim C4 as stated fails: a search that succeeds with no result returns no asset where
  one was asked for.
\<close>

theorem empty_search_returns_nothing:
  "getUnsplashImages empty_search ''shoes'' 1 = Inr []"
  by (simp add: getUnsplashImages_def empty_search_def env_set_def unsplash_request_def ok_def bnd_def)


section \<open>Properties of the Page Analyzer\<close>

lemma analyze_request_bounds:
  "analyze_request ps u = Inr s \<Longrightarrow>
     length (title s) \<le> 100 \<and> length (description s) \<le> 200 \<and> length (price s) \<le> 20 \<and>
     originalUrl s = u"
  by (auto simp: analyze_request_def bnd_def substring0_def Let_def
      split: fetched.splits if_splits sum.splits)

lemma analyze_request_failed:
  "fetch_failed ps u \<Longrightarrow> \<exists>e. analyze_request ps u = Inl e"
  by (auto simp: analyze_request_def fetch_failed_def bnd_def
      split: fetched.splits if_splits sum.splits)

text \<open>
  Claim C5. For every URL (and every other value handed in), \<open>analyzeProductURL\<close> returns
  a summary and never throws; the title has at most 100 characters, the description at
  most 200, the price at most 20, and the URL is kept. When the page cannot be read (no
  response, or a status that is not a success) the summary is the fixed fallback, with
  title "Premium Product" and price "$99.99".
\<close>

theorem analyzeProductURL_bounded:
  "\<exists>s. analyzeProductURL ps u = Inr s \<and>
     length (title s) \<le> 100 \<and> length (description s) \<le> 200 \<and> length (price s) \<le> 20 \<and>
     originalUrl s = u \<and>
     (fetch_failed ps u \<longrightarrow>
        s = fallback_summary u \<and> title s = ''Premium Product'' \<and> price s = ''$99.99'')"
proof (cases "analyze_request ps u")
  case (Inl e)
  then show ?thesis
    by (simp add: analyzeProductURL_def fallback_summary_def)
next
  case (Inr s)
  with analyze_request_failed[of ps u] have "\<not> fetch_failed ps u" by auto
  with Inr analyze_request_bounds[OF Inr] show ?thesis
    by (simp add: analyzeProductURL_def)
qed

text \<open>The merchant that cannot be reached: the hypothesis of C5 holds there.\<close>

theorem analyzeProductURL_bounded_witness:
  "fetch_failed no_pages (Str ''https://example.com/product'') \<and>
   analyzeProductURL no_pages (Str ''https://example.com/product'')
     = Inr (fallback_summary (Str ''https://example.com/product''))"
  using analyzeProductURL_bounded[of no_pages "Str ''https://example.com/product''"]
  by (auto simp: fetch_failed_def no_pages_def)


section \<open>Properties of token verification\<close>

text \<open>
  Claim C9, as the code has it. When verification throws, \<open>verifyToken\<close> returns the decoded
  payload if the token decodes to one whose \<open>userId\<close> is truthy (a non-empty string), and
  null exactly when it does not: a valid signature is not needed for a result.
\<close>

theorem verifyToken_fallback:
  assumes "jwt_verify jl token (opt_or (JWT_SECRET jl) ''your-super-secret-jwt-key'') = Inl e"
  shows "(jwt_decode jl token = Inr (Some d) \<and> truthy (userId d) \<longrightarrow>
            verifyToken jl token = Inr (Some d)) \<and>
         (verifyToken jl token = Inr None) =
            (\<not> (\<exists>p. jwt_decode jl token = Inr (Some p) \<and> truthy (userId p)))"
  using assms by (auto simp: verifyToken_def split: sum.splits option.splits)

text \<open>A token that fails verification and carries a user id is accepted.\<close>

theorem verifyToken_fallback_witness:
  "jwt_verify forged_user ''x.y.z'' (opt_or (JWT_SECRET forged_user) ''your-super-secret-jwt-key'')
     = Inl SyntaxError \<and>
   jwt_decode forged_user ''x.y.z'' = Inr (Some \<lparr> userId = Str ''u1'' \<rparr>) \<and>
   truthy (userId \<lparr> userId = Str ''u1'' \<rparr>) \<and>
   verifyToken forged_user ''x.y.z'' = Inr (Some \<lparr> userId = Str ''u1'' \<rparr>)"
  using verifyToken_fallback[of forged_user "''x.y.z''" SyntaxError "\<lparr> userId = Str ''u1'' \<rparr>"]
  by (simp add: forged_user_def)

text \<open>
  Claim C9 as stated fails: a payload that holds a \<open>userId\<close> field with the empty string
  decodes, and the result is null.
\<close>

theorem empty_userId_is_refused:
  "jwt_decode forged_empty ''x.y.z'' = Inr (Some \<lparr> userId = Str [] \<rparr>) \<and>
   verifyToken forged_empty ''x.y.z'' = Inr None"
  by (simp add: verifyToken_def forged_empty_def)


section \<open>Properties of the Quota Gate\<close>

lemma show_int_3: "show_int 3 = ''3''"
  by (simp add: show_int_def dec.simps digit_char_def)

lemma show_int_999: "show_int 999 = ''999''"
  by (simp add: show_int_def dec.simps digit_char_def)

lemma getPlanLimits_websites:
  "websites (getPlanLimits p) =
     (if p = ''basic'' then 3 else if p = ''pro'' then 10 else if p = ''enterprise'' then 999 else 3)"
  by (simp add: getPlanLimits_def)

lemma admission_authenticated:
  assumes "verifyUser (store sv) db req = Inr (Some u)"
    and "read_productUrl req = Inr productUrl" and "truthy productUrl"
  shows "admission sv db req =
           (if currentUsage u \<ge> websites (getPlanLimits (plan u))
            then Inl \<lparr> status = 403,
                       body = QuotaBody ''Website limit reached''
                         (''Your '' @ plan u @ '' plan allows ''
                            @ show_int (websites (getPlanLimits (plan u)))
                            @ '' websites. Please upgrade to create more.'')
                         (currentUsage u) (websites (getPlanLimits (plan u))) \<rparr>
            else Inr \<lparr> adm_user = u, adm_productUrl = productUrl,
                       adm_limits = getPlanLimits (plan u),
                       adm_currentWebsiteCount = currentUsage u \<rparr>)"
  using assms by (simp add: admission_def currentUsage_def Let_def)

lemma read_productUrl_ada:
  "read_productUrl ada_request = Inr (Str ''https://example.com/product'')"
  by (simp add: read_productUrl_def ada_request_def bnd_def property_def)

lemma verifyUser_ada:
  "verifyUser (store bare_services) (store_with (ada n p)) ada_request = Inr (Some (ada n p))"
  by (simp add: verifyUser_def verifyUser_request_def bare_services_def working_store_def
      store_with_def ada_def ada_request_def env_set_def)

text \<open>
  Claim C10. \<open>getPlanLimits\<close> gives 3 for "basic", 10 for "pro", 999 for "enterprise" and 3
  for every other plan; an authenticated enterprise account whose recorded usage is 999 or
  more is answered with 403 and limit 999, and the store is left as it was.
\<close>

theorem enterprise_ceiling_is_finite:
  "websites (getPlanLimits p) =
     (if p = ''basic'' then 3 else if p = ''pro'' then 10 else if p = ''enterprise'' then 999 else 3) \<and>
   (verifyUser (store sv) db req = Inr (Some u) \<and> read_productUrl req = Inr productUrl \<and>
    truthy productUrl \<and> plan u = ''enterprise'' \<and> 999 \<le> currentUsage u \<longrightarrow>
      POST sv db req =
        (\<lparr> status = 403,
           body = QuotaBody ''Website limit reached''
             ''Your enterprise plan allows 999 websites. Please upgrade to create more.''
             (currentUsage u) 999 \<rparr>, db))"
  by (simp add: getPlanLimits_websites POST_def admission_authenticated show_int_999)

text \<open>An enterprise account with 1000 sites meets the hypothesis of C10.\<close>

theorem enterprise_ceiling_is_finite_witness:
  "verifyUser (store bare_services) (store_with (ada (Some 1000) ''enterprise'')) ada_request
     = Inr (Some (ada (Some 1000) ''enterprise'')) \<and>
   read_productUrl ada_request = Inr (Str ''https://example.com/product'') \<and>
   plan (ada (Some 1000) ''enterprise'') = ''enterprise'' \<and>
   999 \<le> currentUsage (ada (Some 1000) ''enterprise'') \<and>
   POST bare_services (store_with (ada (Some 1000) ''enterprise'')) ada_request =
     (\<lparr> status = 403,
        body = QuotaBody ''Website limit reached''
          ''Your enterprise plan allows 999 websites. Please upgrade to create more.''
          1000 999 \<rparr>, store_with (ada (Some 1000) ''enterprise''))"
  using enterprise_ceiling_is_finite[of "''enterprise''" bare_services
      "store_with (ada (Some 1000) ''enterprise'')" ada_request "ada (Some 1000) ''enterprise''"
      "Str ''https://example.com/product''"]
  by (simp add: verifyUser_ada read_productUrl_ada) (simp add: ada_def currentUsage_def)

text \<open>
  Claim C2, as the code has it. For an authenticated request with a truthy product URL,
  admission allows exactly when the recorded usage is below the ceiling of the plan, and
  the ceiling is 3 for "basic", 10 for "pro" and 999 for "enterprise"; a basic account with
  usage 3 is answered with 403, \<open>currentCount\<close> 3 and \<open>limit\<close> 3.
\<close>

theorem quota_admission:
  assumes "verifyUser (store sv) db req = Inr (Some u)"
    and "read_productUrl req = Inr productUrl" and "truthy productUrl"
  shows "allowed (admission sv db req) = (currentUsage u < websites (getPlanLimits (plan u))) \<and>
         websites (getPlanLimits ''basic'') = 3 \<and>
         websites (getPlanLimits ''pro'') = 10 \<and>
         websites (getPlanLimits ''enterprise'') = 999 \<and>
         (plan u = ''basic'' \<and> currentUsage u = 3 \<longrightarrow>
            admission sv db req =
              Inl \<lparr> status = 403,
                    body = QuotaBody ''Website limit reached''
                      ''Your basic plan allows 3 websites. Please upgrade to create more.'' 3 3 \<rparr>)"
  using assms
  by (auto simp: admission_authenticated allowed_def getPlanLimits_websites show_int_3)

text \<open>The basic account with three sites meets the hypotheses of C2.\<close>

theorem quota_admission_witness:
  "verifyUser (store bare_services) (store_with (ada (Some 3) ''basic'')) ada_request
     = Inr (Some (ada (Some 3) ''basic'')) \<and>
   read_productUrl ada_request = Inr (Str ''https://example.com/product'') \<and>
   plan (ada (Some 3) ''basic'') = ''basic'' \<and> currentUsage (ada (Some 3) ''basic'') = 3 \<and>
   \<not> allowed (admission bare_services (store_with (ada (Some 3) ''basic'')) ada_request) \<and>
   admission bare_services (store_with (ada (Some 3) ''basic'')) ada_request =
     Inl \<lparr> status = 403,
           body = QuotaBody ''Website limit reached''
             ''Your basic plan allows 3 websites. Please upgrade to create more.'' 3 3 \<rparr>"
  using quota_admission[of bare_services "store_with (ada (Some 3) ''basic'')" ada_request
      "ada (Some 3) ''basic''" "Str ''https://example.com/product''"]
  by (simp add: verifyUser_ada read_productUrl_ada) (simp add: ada_def currentUsage_def allowed_def)

text \<open>
  Claim C2 as stated fails: with no ceiling for the enterprise tier a usage of 999 would be
  admitted, and the handler rejects it.
\<close>

theorem enterprise_is_not_unlimited:
  "enat 999 < spec_ceiling Enterprise \<and>
   currentUsage (ada (Some 999) (tier_name Enterprise)) = 999 \<and>
   \<not> allowed (admission bare_services (store_with (ada (Some 999) (tier_name Enterprise)))
                 ada_request)"
proof -
  let ?u = "ada (Some 999) (tier_name Enterprise)"
  have request_body: "read_productUrl ada_request = Inr (Str ''https://example.com/product'')"
    by (rule read_productUrl_ada)
  have usage: "currentUsage ?u = 999"
    by (simp add: ada_def currentUsage_def)
  have tier: "plan ?u = ''enterprise''"
    by (simp add: ada_def)
  have "\<not> allowed (admission bare_services (store_with ?u) ada_request)"
    using admission_authenticated[OF verifyUser_ada request_body] usage tier
    by (simp add: allowed_def getPlanLimits_websites)
  with usage show ?thesis by simp
qed


section \<open>Properties of the Content Synthesizer\<close>

lemma getUnsplashImages_sourced:
  "getUnsplashImages ip q n = Inr (sourced ip q n)"
  by (simp add: sourced_def getUnsplashImages_def split: sum.splits)

lemma toLowerCase_append: "toLowerCase (xs @ ys) = toLowerCase xs @ toLowerCase ys"
  by (simp add: toLowerCase_def)

lemma toLowerCase_take: "toLowerCase (take n xs) = take n (toLowerCase xs)"
  by (simp add: toLowerCase_def take_map)

lemma prefix_take: "prefix p xs \<Longrightarrow> length p \<le> n \<Longrightarrow> prefix p (take n xs)"
  by (auto simp: prefix_def)

lemma doctype_match_starts:
  "doctype_match s = Some m \<Longrightarrow> prefix ''<!doctype'' (toLowerCase m)"
proof (induction s)
  case Nil
  then show ?case by simp
next
  case (Cons c cs)
  show ?case
  proof (cases "prefix ''<!doctype'' (toLowerCase (c # cs))")
    case True
    show ?thesis
    proof (cases "last_end ''</html>'' (drop 8 cs)")
      case None
      with True Cons show ?thesis by simp
    next
      case (Some k)
      with True Cons.prems have "m = take (9 + k) (c # cs)" by simp
      with True show ?thesis
        by (simp only: toLowerCase_take) (rule prefix_take, simp_all)
    qed
  next
    case False
    with Cons show ?thesis by simp
  qed
qed

lemma template_lines_first:
  "\<exists>rest. template_lines p link f0 f1 t0 = ''<!DOCTYPE html>\<newline>'' # rest"
  by (simp add: template_lines_def)

lemma template_text:
  "generateProfessionalTemplate p h f t = Inr doc \<Longrightarrow>
     \<exists>link. to_string (originalUrl p) = Inr link \<and>
            url_or_default f 0 = Inr (address f 0) \<and>
            url_or_default f 1 = Inr (address f 1) \<and>
            url_or_default t 0 = Inr (address t 0) \<and>
            doc = concat (template_lines p link (address f 0) (address f 1) (address t 0))"
  by (auto simp: generateProfessionalTemplate_def bnd_def address_def split: sum.splits)

lemma template_has_root_marker:
  assumes "generateProfessionalTemplate p h f t = Inr doc"
  shows "has_root_marker doc"
proof -
  obtain link where doc: "doc = concat (template_lines p link (address f 0) (address f 1) (address t 0))"
    using template_text[OF assms] by blast
  obtain rest where
    "template_lines p link (address f 0) (address f 1) (address t 0) = ''<!DOCTYPE html>\<newline>'' # rest"
    using template_lines_first by blast
  with doc have "toLowerCase doc = ''<!doctype'' @ ('' html>\<newline>'' @ toLowerCase (concat rest))"
    by (simp add: toLowerCase_append) (simp add: toLowerCase_def lower_char_def)
  then have "prefix ''<!doctype'' (toLowerCase doc)"
    by (simp only: prefixI)
  then show ?thesis
    unfolding has_root_marker_def by (blast intro: prefix_imp_sublist)
qed

lemma url_or_default_converts:
  assumes "\<forall>a \<in> set assets. convertible (url a)"
  shows "\<exists>s. url_or_default assets i = Inr s"
proof (cases "i < length assets \<and> truthy (url (assets ! i))")
  case True
  then have "convertible (url (assets ! i))" using assms by simp
  with True show ?thesis
    by (auto simp: url_or_default_def js_or_def convertible_def split: sum.splits)
next
  case False
  then show ?thesis
    by (auto simp: url_or_default_def js_or_def)
qed

lemma sourced_convert:
  "addresses_convert ip \<Longrightarrow> \<forall>a \<in> set (sourced ip q n). convertible (url a)"
  by (simp add: addresses_convert_def)

lemma prompt_total:
  assumes "convertible (originalUrl p)"
    and "\<forall>a \<in> set h. convertible (url a)" and "\<forall>a \<in> set f. convertible (url a)"
    and "\<forall>a \<in> set t. convertible (url a)"
  shows "\<exists>request_text. prompt p h f t = Inr request_text"
proof -
  obtain link where "to_string (originalUrl p) = Inr link"
    using assms(1) by (auto simp: convertible_def split: sum.splits)
  moreover obtain h0 where "url_or_default h 0 = Inr h0"
    using url_or_default_converts[OF assms(2)] by blast
  moreover obtain f0 where "url_or_default f 0 = Inr f0"
    using url_or_default_converts[OF assms(3)] by blast
  moreover obtain f1 where "url_or_default f 1 = Inr f1"
    using url_or_default_converts[OF assms(3)] by blast
  moreover obtain t0 where "url_or_default t 0 = Inr t0"
    using url_or_default_converts[OF assms(4)] by blast
  ultimately show ?thesis by (simp add: prompt_def bnd_def)
qed

lemma template_total:
  assumes "convertible (originalUrl p)"
    and "\<forall>a \<in> set f. convertible (url a)" and "\<forall>a \<in> set t. convertible (url a)"
  shows "\<exists>doc. generateProfessionalTemplate p h f t = Inr doc"
proof -
  obtain link where "to_string (originalUrl p) = Inr link"
    using assms(1) by (auto simp: convertible_def split: sum.splits)
  moreover obtain f0 where "url_or_default f 0 = Inr f0"
    using url_or_default_converts[OF assms(2)] by blast
  moreover obtain f1 where "url_or_default f 1 = Inr f1"
    using url_or_default_converts[OF assms(2)] by blast
  moreover obtain t0 where "url_or_default t 0 = Inr t0"
    using url_or_default_converts[OF assms(3)] by blast
  ultimately show ?thesis by (simp add: generateProfessionalTemplate_def bnd_def)
qed

lemma model_request_marker:
  "model_request mp request_text p h f t = Inr doc \<Longrightarrow> has_root_marker doc"
proof -
  assume r: "model_request mp request_text p h f t = Inr doc"
  then obtain reply where got: "generateContent mp request_text = Inr reply"
    by (auto simp: model_request_def bnd_def split: sum.splits)
  let ?w = "trim (remove_all fence (remove_all (fence @ ''html'') reply))"
  show ?thesis
  proof (cases "has_root_marker ?w")
    case True
    with r got show ?thesis
      by (auto simp: model_request_def bnd_def has_root_marker_def Let_def)
  next
    case False
    show ?thesis
    proof (cases "doctype_match ?w")
      case None
      with False r got have "generateProfessionalTemplate p h f t = Inr doc"
        by (auto simp: model_request_def bnd_def has_root_marker_def Let_def)
      then show ?thesis by (rule template_has_root_marker)
    next
      case (Some m)
      with False r got have "doc = m"
        by (auto simp: model_request_def bnd_def has_root_marker_def Let_def)
      with doctype_match_starts[OF Some] show ?thesis
        unfolding has_root_marker_def by (blast intro: prefix_imp_sublist)
    qed
  qed
qed

lemma doctype_match_needs_marker:
  "doctype_match s = Some m \<Longrightarrow> sublist ''<!doctype'' (toLowerCase s)"
proof (induction s)
  case Nil
  then show ?case by simp
next
  case (Cons c cs)
  show ?case
  proof (cases "prefix ''<!doctype'' (toLowerCase (c # cs))")
    case True
    then show ?thesis by (rule prefix_imp_sublist)
  next
    case False
    with Cons have "sublist ''<!doctype'' (toLowerCase cs)" by simp
    then show ?thesis by (simp add: toLowerCase_def sublist_Cons_right)
  qed
qed

lemma model_request_unusable:
  assumes "case generateContent mp request_text of
             Inl e \<Rightarrow> True
           | Inr reply \<Rightarrow>
               \<not> has_root_marker (trim (remove_all fence (remove_all (fence @ ''html'') reply)))"
    and "model_request mp request_text p h f t = Inr doc"
  shows "generateProfessionalTemplate p h f t = Inr doc"
proof (cases "generateContent mp request_text")
  case (Inl x)
  with assms(2) show ?thesis by (simp add: model_request_def bnd_def)
next
  case (Inr reply)
  let ?w = "trim (remove_all fence (remove_all (fence @ ''html'') reply))"
  from assms(1) Inr have no_marker: "\<not> has_root_marker ?w" by simp
  then have "doctype_match ?w = None"
    using doctype_match_needs_marker[of ?w]
    by (cases "doctype_match ?w") (auto simp: has_root_marker_def)
  with no_marker Inr assms(2) show ?thesis
    by (simp add: model_request_def bnd_def has_root_marker_def Let_def)
qed

lemma generateWebsiteContent_unfold:
  "generateWebsiteContent ip mp p =
     bnd (prompt p (hero_images ip p) (feature_images ip p) (testimonial_images ip))
       (\<lambda>request_text.
          case model_request mp request_text p (hero_images ip p) (feature_images ip p)
                 (testimonial_images ip) of
            Inl e \<Rightarrow>
              generateProfessionalTemplate p (hero_images ip p) (feature_images ip p)
                (testimonial_images ip)
          | Inr websiteHTML \<Rightarrow> Inr websiteHTML)"
  by (simp add: generateWebsiteContent_def getUnsplashImages_sourced bnd_def hero_images_def
      feature_images_def testimonial_images_def split: sum.splits)

lemma generateWebsiteContent_total:
  assumes "convertible (originalUrl p)" and "addresses_convert ip"
  shows "\<exists>doc. generateWebsiteContent ip mp p = Inr doc \<and> has_root_marker doc \<and>
           generateProfessionalTemplate p (hero_images ip p) (feature_images ip p)
             (testimonial_images ip) = Inr (fallback_document ip p) \<and>
           (model_unusable ip mp p \<longrightarrow> doc = fallback_document ip p)"
proof -
  let ?h = "hero_images ip p" and ?f = "feature_images ip p" and ?t = "testimonial_images ip"
  have conv: "\<forall>a \<in> set ?h. convertible (url a)" "\<forall>a \<in> set ?f. convertible (url a)"
    "\<forall>a \<in> set ?t. convertible (url a)"
    using assms(2)
    by (simp_all add: hero_images_def feature_images_def testimonial_images_def sourced_convert)
  obtain rt where rt: "prompt p ?h ?f ?t = Inr rt"
    using prompt_total[OF assms(1) conv] by blast
  obtain fb where fb: "generateProfessionalTemplate p ?h ?f ?t = Inr fb"
    using template_total[OF assms(1) conv(2,3)] by blast
  then have fbd: "fallback_document ip p = fb"
    by (simp add: fallback_document_def)
  have gwc: "generateWebsiteContent ip mp p =
      (case model_request mp rt p ?h ?f ?t of Inl e \<Rightarrow> Inr fb | Inr d \<Rightarrow> Inr d)"
    by (simp add: generateWebsiteContent_unfold rt bnd_def fb split: sum.splits)
  show ?thesis
  proof (cases "model_request mp rt p ?h ?f ?t")
    case (Inl e)
    with gwc fb fbd template_has_root_marker[OF fb] show ?thesis by simp
  next
    case (Inr d)
    have "model_unusable ip mp p \<longrightarrow> d = fb"
    proof
      assume "model_unusable ip mp p"
      then have "case generateContent mp rt of
                   Inl e \<Rightarrow> True
                 | Inr reply \<Rightarrow>
                     \<not> has_root_marker
                         (trim (remove_all fence (remove_all (fence @ ''html'') reply)))"
        by (simp add: model_unusable_def rt)
      then have "generateProfessionalTemplate p ?h ?f ?t = Inr d"
        using Inr by (rule model_request_unusable)
      with fb show "d = fb" by simp
    qed
    with Inr gwc fb fbd model_request_marker[OF Inr] show ?thesis by simp
  qed
qed


lemma line_in_document: "l \<in> set ls \<Longrightarrow> sublist l (concat ls)"
proof -
  assume "l \<in> set ls"
  then obtain xs ys where "ls = xs @ l # ys" by (meson split_list)
  then have "concat ls = concat xs @ l @ concat ys" by simp
  then show ?thesis unfolding sublist_def by blast
qed

lemma part_of_line:
  "l \<in> set ls \<Longrightarrow> l = before @ part @ after \<Longrightarrow> sublist part (concat ls)"
  using line_in_document[of l ls] sublist_appendI[of part before after]
  by (metis sublist_order.order_trans)

lemma template_title_slot:
  \<open>sublist (''<title>'' @ title p @ '' - Professional Affiliate Website</title>'')
     (concat (template_lines p link f0 f1 t0))\<close>
  by (rule part_of_line[where before = "''    ''" and after = "''\<newline>''"
        and l = "''    <title>'' @ title p @ '' - Professional Affiliate Website</title>\<newline>''"])
     (simp_all add: template_lines_def)

lemma template_heading_slot:
  \<open>sublist (''<h1>'' @ title p @ ''</h1>'') (concat (template_lines p link f0 f1 t0))\<close>
  by (rule part_of_line[where before = "''            ''" and after = "''\<newline>''"
        and l = "''            <h1>'' @ title p @ ''</h1>\<newline>''"])
     (simp_all add: template_lines_def)

lemma template_feature_slot_0:
  \<open>sublist (''<img src="'' @ f0 @ ''" alt="Premium Quality">'')
     (concat (template_lines p link f0 f1 t0))\<close>
  by (rule part_of_line[where before = "''                    ''" and after = "''\<newline>''"
        and l = \<open>''                    <img src="'' @ f0 @ ''" alt="Premium Quality">\<newline>''\<close>])
     (simp_all add: template_lines_def)

lemma template_feature_slot_1:
  \<open>sublist (''<img src="'' @ f1 @ ''" alt="Amazing Value">'')
     (concat (template_lines p link f0 f1 t0))\<close>
  by (rule part_of_line[where before = "''                    ''" and after = "''\<newline>''"
        and l = \<open>''                    <img src="'' @ f1 @ ''" alt="Amazing Value">\<newline>''\<close>])
     (simp_all add: template_lines_def)

lemma template_testimonial_slot:
  \<open>sublist (''<img src="'' @ t0 @ ''" alt="Happy Customer">'')
     (concat (template_lines p link f0 f1 t0))\<close>
  by (rule part_of_line[where before = "''                ''" and after = "''\<newline>''"
        and l = \<open>''                <img src="'' @ t0 @ ''" alt="Happy Customer">\<newline>''\<close>])
     (simp_all add: template_lines_def)

lemma template_slots:
  assumes "generateProfessionalTemplate p h f t = Inr doc"
  shows \<open>sublist (''<title>'' @ title p @ '' - Professional Affiliate Website</title>'') doc \<and>
         sublist (''<h1>'' @ title p @ ''</h1>'') doc \<and>
         sublist (''<img src="'' @ address f 0 @ ''" alt="Premium Quality">'') doc \<and>
         sublist (''<img src="'' @ address f 1 @ ''" alt="Amazing Value">'') doc \<and>
         sublist (''<img src="'' @ address t 0 @ ''" alt="Happy Customer">'') doc\<close>
proof -
  obtain link where
    "doc = concat (template_lines p link (address f 0) (address f 1) (address t 0))"
    using template_text[OF assms] by blast
  then show ?thesis
    by (simp only: template_title_slot template_heading_slot template_feature_slot_0
        template_feature_slot_1 template_testimonial_slot simp_thms)
qed

text \<open>
  Claim C1, as the code has it. The prompt and the template are template literals, and
  the prompt is built before the \<open>try\<close>. For every summary whose product address converts
  to text, on an image provider whose addresses convert to text, \<open>generateWebsiteContent\<close>
  returns one document and never fails, and the document holds a root marker, whatever
  the model call does. When the call throws, or the text holds no marker once cleaned
  (the empty text among them), the document is the fallback template. The code does not
  test the model key: with no key the template is reached through the call that throws.
  The template carries the product title in its title and heading and three image
  addresses in their slots: the two feature images and the testimonial image. It has no
  slot for the hero image.
\<close>

theorem generateWebsiteContent_document:
  assumes "convertible (originalUrl p)" and "addresses_convert ip"
  shows \<open>\<exists>doc. generateWebsiteContent ip mp p = Inr doc \<and> has_root_marker doc \<and>
     (model_unusable ip mp p \<longrightarrow> doc = fallback_document ip p) \<and>
     sublist (''<title>'' @ title p @ '' - Professional Affiliate Website</title>'')
       (fallback_document ip p) \<and>
     sublist (''<h1>'' @ title p @ ''</h1>'') (fallback_document ip p) \<and>
     sublist (''<img src="'' @ address (feature_images ip p) 0 @ ''" alt="Premium Quality">'')
       (fallback_document ip p) \<and>
     sublist (''<img src="'' @ address (feature_images ip p) 1 @ ''" alt="Amazing Value">'')
       (fallback_document ip p) \<and>
     sublist (''<img src="'' @ address (testimonial_images ip) 0 @ ''" alt="Happy Customer">'')
       (fallback_document ip p)\<close>
proof -
  obtain doc where doc: "generateWebsiteContent ip mp p = Inr doc" "has_root_marker doc"
    "model_unusable ip mp p \<longrightarrow> doc = fallback_document ip p"
    and fb: "generateProfessionalTemplate p (hero_images ip p) (feature_images ip p)
               (testimonial_images ip) = Inr (fallback_document ip p)"
    using generateWebsiteContent_total[OF assms] by blast
  from template_slots[OF fb] doc show ?thesis by blast
qed

lemma sourced_no_images: "sourced no_images q n = replicate (nat n) (placeholder q)"
  by (simp add: sourced_def getUnsplashImages_def no_images_def env_set_def
      generatePlaceholderImages_replicate)

lemma addresses_convert_no_images: "addresses_convert no_images"
  by (simp add: addresses_convert_def sourced_no_images placeholder_def convertible_def)

lemma convertible_Str: "convertible (Str s)"
  by (simp add: convertible_def)

lemma model_unusable_no_model:
  assumes "convertible (originalUrl p)" and "addresses_convert ip"
  shows "model_unusable ip no_model p"
proof -
  have "\<forall>a \<in> set (hero_images ip p). convertible (url a)"
    "\<forall>a \<in> set (feature_images ip p). convertible (url a)"
    "\<forall>a \<in> set (testimonial_images ip). convertible (url a)"
    using assms(2)
    by (simp_all add: hero_images_def feature_images_def testimonial_images_def sourced_convert)
  from prompt_total[OF assms(1) this] obtain rt where
    "prompt p (hero_images ip p) (feature_images ip p) (testimonial_images ip) = Inr rt"
    by blast
  then show ?thesis
    by (simp add: model_unusable_def generateContent_def no_model_def)
qed

text \<open>
  With a model whose call throws, the hypotheses of C1 hold and the result is the template.
\<close>

theorem generateWebsiteContent_document_witness:
  "convertible (originalUrl widget) \<and> addresses_convert no_images \<and>
   model_unusable no_images no_model widget \<and>
   generateWebsiteContent no_images no_model widget = Inr (fallback_document no_images widget)"
proof -
  have c: "convertible (originalUrl widget)"
    by (simp add: widget_def convertible_Str)
  from generateWebsiteContent_document[OF c addresses_convert_no_images, of no_model]
    model_unusable_no_model[OF c addresses_convert_no_images] c addresses_convert_no_images
  show ?thesis by auto
qed


lemma placeholder_pair:
  "generatePlaceholderImages q 2 = [placeholder q, placeholder q]"
  by (simp add: generatePlaceholderImages_replicate numeral_2_eq_2)

lemma placeholder_single:
  "generatePlaceholderImages q 1 = [placeholder q]"
  by (simp add: generatePlaceholderImages_replicate)

lemma hero_only_hero:
  "hero_images hero_only widget =
     [\<lparr> url = Str ''https://img.example/hero~1'', thumb = Str ''https://img.example/hero~1-thumb'',
        alt = Str ''Widget product lifestyle'', credit = ''Photo by Grace on Unsplash'',
        download_url = Str ''https://img.example/hero~1/download'' \<rparr>]"
  by (simp add: hero_images_def sourced_def getUnsplashImages_def hero_only_def env_set_def
      unsplash_request_def ok_def bnd_def widget_def photo_to_asset_def hero_photo_def js_or_def)

lemma hero_only_features:
  "feature_images hero_only widget =
     [placeholder ''Widget benefits features'', placeholder ''Widget benefits features'']"
  by (simp add: feature_images_def sourced_def getUnsplashImages_def hero_only_def env_set_def
      unsplash_request_def widget_def placeholder_pair)

lemma hero_only_testimonial:
  "testimonial_images hero_only = [placeholder ''happy customer testimonial'']"
  by (simp add: testimonial_images_def sourced_def getUnsplashImages_def hero_only_def env_set_def
      unsplash_request_def placeholder_single)

lemma hero_only_fallback:
  "generateProfessionalTemplate widget (hero_images hero_only widget)
     (feature_images hero_only widget) (testimonial_images hero_only)
   = Inr (fallback_document hero_only widget)"
  unfolding fallback_document_def generateProfessionalTemplate_def hero_only_features
    hero_only_testimonial
  by (simp add: bnd_def widget_def url_or_default_def placeholder_def js_or_def)

lemma hero_only_prompt:
  "\<exists>rt. prompt widget (hero_images hero_only widget) (feature_images hero_only widget)
          (testimonial_images hero_only) = Inr rt"
  unfolding prompt_def hero_only_hero hero_only_features hero_only_testimonial
  by (simp add: bnd_def widget_def url_or_default_def placeholder_def js_or_def)

lemma tilde_not_in_document:
  "CHR ''~'' \<notin> set (fallback_document hero_only widget)"
  unfolding fallback_document_def generateProfessionalTemplate_def hero_only_features
    hero_only_testimonial
  by (simp add: bnd_def template_lines_def widget_def url_or_default_def placeholder_def js_or_def)

text \<open>
  Claim C1 as stated fails on its fourth address: the hero image sourced for the page is
  nowhere in the fallback document.
\<close>

theorem hero_image_has_no_slot:
  "map url (hero_images hero_only widget) = [Str ''https://img.example/hero~1''] \<and>
   generateWebsiteContent hero_only no_model widget = Inr (fallback_document hero_only widget) \<and>
   \<not> sublist ''https://img.example/hero~1'' (fallback_document hero_only widget)"
proof -
  have "\<not> sublist ''https://img.example/hero~1'' (fallback_document hero_only widget)"
  proof
    assume "sublist ''https://img.example/hero~1'' (fallback_document hero_only widget)"
    then have "set ''https://img.example/hero~1'' \<subseteq> set (fallback_document hero_only widget)"
      by (rule set_mono_sublist)
    then have "CHR ''~'' \<in> set (fallback_document hero_only widget)" by auto
    with tilde_not_in_document show False by simp
  qed
  moreover obtain rt where
    "prompt widget (hero_images hero_only widget) (feature_images hero_only widget)
       (testimonial_images hero_only) = Inr rt"
    using hero_only_prompt by blast
  then have "generateWebsiteContent hero_only no_model widget
               = Inr (fallback_document hero_only widget)"
    by (simp add: generateWebsiteContent_unfold model_request_def generateContent_def bnd_def
        no_model_def hero_only_fallback)
  ultimately show ?thesis by (simp add: hero_only_hero)
qed

text \<open>
  Two observations on the conditions of C1. The key is read once, when the module is
  loaded, and never tested: what the function returns depends on the call alone, so a
  service that answers without a key has its answer returned. And a product address
  that does not convert to text makes the prompt literal throw before the \<open>try\<close>: the
  function fails.
\<close>

lemma keyless_reply_is_returned:
  "\<not> env_set (GEMINI_API_KEY keyless_model) \<and>
   generateWebsiteContent no_images keyless_model widget = Inr ''<html><body>Widget</body></html>''"
proof -
  have c: "convertible (originalUrl widget)"
    by (simp add: widget_def convertible_Str)
  have "\<forall>a \<in> set (hero_images no_images widget). convertible (url a)"
    "\<forall>a \<in> set (feature_images no_images widget). convertible (url a)"
    "\<forall>a \<in> set (testimonial_images no_images). convertible (url a)"
    using addresses_convert_no_images
    by (simp_all add: hero_images_def feature_images_def testimonial_images_def sourced_convert)
  from prompt_total[OF c this] obtain rt where
    rt: "prompt widget (hero_images no_images widget) (feature_images no_images widget)
           (testimonial_images no_images) = Inr rt"
    by blast
  have clean: "trim (remove_all fence (remove_all (fence @ ''html'') ''<html><body>Widget</body></html>''))
                 = ''<html><body>Widget</body></html>''"
    by (simp add: fence_def trim_def is_space_def)
  have marker: "sublist ''<html'' (toLowerCase ''<html><body>Widget</body></html>'')"
    by (simp add: toLowerCase_def lower_char_def)
  have "model_request keyless_model rt widget (hero_images no_images widget)
          (feature_images no_images widget) (testimonial_images no_images)
        = Inr ''<html><body>Widget</body></html>''"
    unfolding model_request_def generateContent_def
    by (simp add: keyless_model_def bnd_def clean marker del: remove_all.simps)
  with rt show ?thesis
    by (simp add: generateWebsiteContent_unfold bnd_def keyless_model_def env_set_def)
qed

lemma unconvertible_address_throws:
  "\<not> convertible object_url \<and>
   generateWebsiteContent no_images no_model (widget\<lparr> originalUrl := object_url \<rparr>) = Inl TypeError"
  by (simp add: convertible_def object_url_def generateWebsiteContent_unfold prompt_def bnd_def)


section \<open>Properties of the Pipeline Orchestrator\<close>

lemma analyzeProductURL_total: "\<exists>s. analyzeProductURL ps u = Inr s \<and> originalUrl s = u"
proof (cases "analyze_request ps u")
  case (Inl e)
  then show ?thesis by (simp add: analyzeProductURL_def fallback_summary_def)
next
  case (Inr s)
  with analyze_request_bounds[OF Inr] show ?thesis by (simp add: analyzeProductURL_def)
qed

lemma deployToNetlify_total: "\<exists>calls d. deployToNetlify h doc n = (calls, Inr d)"
  by (cases "deploy_request h doc n") (auto simp: deployToNetlify_def split: sum.splits)

lemma deployToNetlify_no_token:
  "\<not> env_set (NETLIFY_ACCESS_TOKEN h) \<Longrightarrow> deployToNetlify h doc n = ([], Inr None)"
  by (simp add: deployToNetlify_def)

lemma generation_total:
  assumes "convertible u" and "addresses_convert (images sv)"
  shows "\<exists>g. generation sv u = Inr g \<and>
             gen_slug g = make_slug (title (gen_productInfo g)) (date_now sv)"
proof -
  obtain s where s: "analyzeProductURL (pages sv) u = Inr s" "originalUrl s = u"
    using analyzeProductURL_total by blast
  with assms(1) have "convertible (originalUrl s)" by simp
  then obtain doc where doc: "generateWebsiteContent (images sv) (model sv) s = Inr doc"
    using generateWebsiteContent_total[OF _ assms(2)] by blast
  obtain calls d where
    "deployToNetlify (host sv) doc (make_slug (title s) (date_now sv)) = (calls, Inr d)"
    using deployToNetlify_total by blast
  with s doc show ?thesis
    by (simp add: generation_def bnd_def)
qed

lemma generation_no_token:
  assumes "\<not> env_set (NETLIFY_ACCESS_TOKEN (host sv))"
    and "convertible u" and "addresses_convert (images sv)"
  shows "\<exists>g. generation sv u = Inr g \<and> gen_calls g = [] \<and> gen_netlifyDeployment g = None"
proof -
  obtain s where s: "analyzeProductURL (pages sv) u = Inr s" "originalUrl s = u"
    using analyzeProductURL_total by blast
  with assms(2) have "convertible (originalUrl s)" by simp
  then obtain doc where doc: "generateWebsiteContent (images sv) (model sv) s = Inr doc"
    using generateWebsiteContent_total[OF _ assms(3)] by blast
  from s doc assms(1) show ?thesis
    by (simp add: generation_def bnd_def deployToNetlify_no_token)
qed

lemma POST_admitted:
  "admission sv db req = Inr a \<Longrightarrow> generation sv (adm_productUrl a) = Inr g \<Longrightarrow>
     POST sv db req = persist sv db a g"
  by (simp add: POST_def)

lemma persist_connect_fails:
  "connect_fails (store sv) \<Longrightarrow> persist sv db a g = (internal_error, db)"
  by (simp add: persist_def)

lemma persist_insert_fails:
  "insert_fails (store sv) \<Longrightarrow> persist sv db a g = (internal_error, db)"
  by (simp add: persist_def Let_def)

lemma persist_update_fails:
  "\<not> connect_fails (store sv) \<Longrightarrow> \<not> insert_fails (store sv) \<Longrightarrow> update_fails (store sv) \<Longrightarrow>
     persist sv db a g =
       (internal_error, db\<lparr> websites_collection := websites_collection db @ [websiteData sv a g] \<rparr>)"
  by (simp add: persist_def Let_def)

lemma persist_succeeds:
  "\<not> storage_fault (store sv) \<Longrightarrow>
     persist sv db a g =
       (created sv a g,
        db\<lparr> websites_collection := websites_collection db @ [websiteData sv a g],
            users_collection := inc_websiteCount (user_id (adm_user a)) (users_collection db) \<rparr>)"
  by (simp add: persist_def Let_def storage_fault_def)

lemma status_created: "status (created sv a g) = 200"
  by (simp add: created_def Let_def)

lemma status_internal_error: "status internal_error = 500"
  by (simp add: internal_error_def)


lemma failed_generation_is_answered_500:
  "admission sv db req = Inr a \<Longrightarrow> generation sv (adm_productUrl a) = Inl e \<Longrightarrow>
     POST sv db req = (internal_error, db)"
  by (simp add: POST_def)





lemma admission_ada:
  "currentUsage (ada n p) < websites (getPlanLimits p) \<Longrightarrow>
   admission bare_services (store_with (ada n p)) ada_request =
     Inr \<lparr> adm_user = ada n p, adm_productUrl = Str ''https://example.com/product'',
           adm_limits = getPlanLimits p, adm_currentWebsiteCount = currentUsage (ada n p) \<rparr>"
  using admission_authenticated[OF verifyUser_ada read_productUrl_ada, of n p]
  by (simp add: ada_def)

lemma admission_basic:
  "admission bare_services basic_store ada_request =
     Inr \<lparr> adm_user = ada (Some 0) ''basic'',
           adm_productUrl = Str ''https://example.com/product'',
           adm_limits = getPlanLimits ''basic'', adm_currentWebsiteCount = 0 \<rparr>"
  unfolding basic_store_def
  using admission_ada[of "Some 0" "''basic''"]
  by (simp add: getPlanLimits_websites) (simp add: currentUsage_def ada_def)

lemma admission_failing_update:
  "admission failing_update basic_store ada_request =
     admission bare_services basic_store ada_request"
  by (simp add: admission_def failing_update_def verifyUser_def verifyUser_request_def
      bare_services_def working_store_def)

lemma bare_services_convert: "addresses_convert (images bare_services)"
  by (simp add: bare_services_def addresses_convert_no_images)

lemma failing_update_convert: "addresses_convert (images failing_update)"
  by (simp add: failing_update_def bare_services_def addresses_convert_no_images)

lemma bare_services_work: "\<not> storage_fault (store bare_services)"
  by (simp add: storage_fault_def bare_services_def working_store_def)





text \<open>
  Claim C8, as the code has it. For a request that reaches the persisting stage, a storage
  failure is answered with 500. When the connection or the insert rejects, the store is
  unchanged. When the insert succeeds and the counter update rejects, the record
  \<open>websiteData\<close> is stored and the users are unchanged: later quota checks read the old
  counter. With no failure the record is stored and the counter of the account is
  incremented.
\<close>

theorem persisting_outcomes:
  assumes "admission sv db req = Inr a" and "generation sv (adm_productUrl a) = Inr g"
  shows "(storage_fault (store sv) \<longrightarrow>
            fst (POST sv db req) = internal_error \<and> status (fst (POST sv db req)) = 500) \<and>
         (connect_fails (store sv) \<or> insert_fails (store sv) \<longrightarrow> snd (POST sv db req) = db) \<and>
         (\<not> connect_fails (store sv) \<and> \<not> insert_fails (store sv) \<and> update_fails (store sv) \<longrightarrow>
            users_collection (snd (POST sv db req)) = users_collection db \<and>
            websites_collection (snd (POST sv db req))
              = websites_collection db @ [websiteData sv a g]) \<and>
         (\<not> storage_fault (store sv) \<longrightarrow>
            users_collection (snd (POST sv db req))
              = inc_websiteCount (user_id (adm_user a)) (users_collection db) \<and>
            websites_collection (snd (POST sv db req))
              = websites_collection db @ [websiteData sv a g])"
proof -
  have post: "POST sv db req = persist sv db a g"
    using assms by (rule POST_admitted)
  have early: "connect_fails (store sv) \<or> insert_fails (store sv) \<longrightarrow>
                 POST sv db req = (internal_error, db)"
    by (auto simp: post persist_connect_fails persist_insert_fails)
  have late: "\<not> connect_fails (store sv) \<and> \<not> insert_fails (store sv) \<and> update_fails (store sv) \<longrightarrow>
                POST sv db req =
                  (internal_error,
                   db\<lparr> websites_collection := websites_collection db @ [websiteData sv a g] \<rparr>)"
    by (simp add: post persist_update_fails)
  have fine: "\<not> storage_fault (store sv) \<longrightarrow>
                POST sv db req =
                  (created sv a g,
                   db\<lparr> websites_collection := websites_collection db @ [websiteData sv a g],
                       users_collection :=
                         inc_websiteCount (user_id (adm_user a)) (users_collection db) \<rparr>)"
    by (simp add: post persist_succeeds)
  have "storage_fault (store sv) \<longrightarrow> fst (POST sv db req) = internal_error"
    using early late by (auto simp: storage_fault_def)
  with early late fine show ?thesis
    by (auto simp: status_internal_error)
qed

text \<open>The store whose counter update rejects meets the hypotheses of C8.\<close>

theorem persisting_outcomes_witness:
  "admission failing_update basic_store ada_request =
     Inr \<lparr> adm_user = ada (Some 0) ''basic'',
           adm_productUrl = Str ''https://example.com/product'',
           adm_limits = getPlanLimits ''basic'', adm_currentWebsiteCount = 0 \<rparr> \<and>
   (\<exists>g. generation failing_update (Str ''https://example.com/product'') = Inr g) \<and>
   storage_fault (store failing_update) \<and>
   \<not> connect_fails (store failing_update) \<and> \<not> insert_fails (store failing_update) \<and>
   update_fails (store failing_update) \<and>
   status (fst (POST failing_update basic_store ada_request)) = 500 \<and>
   users_collection (snd (POST failing_update basic_store ada_request))
     = users_collection basic_store"
proof -
  have adm: "admission failing_update basic_store ada_request =
      Inr \<lparr> adm_user = ada (Some 0) ''basic'',
            adm_productUrl = Str ''https://example.com/product'',
            adm_limits = getPlanLimits ''basic'', adm_currentWebsiteCount = 0 \<rparr>"
    by (simp add: admission_failing_update admission_basic)
  obtain g where g: "generation failing_update (Str ''https://example.com/product'') = Inr g"
    using generation_total[OF convertible_Str failing_update_convert] by blast
  have flags: "\<not> connect_fails (store failing_update)" "\<not> insert_fails (store failing_update)"
    "update_fails (store failing_update)"
    by (simp_all add: failing_update_def working_store_def)
  then have "storage_fault (store failing_update)"
    by (simp add: storage_fault_def)
  with persisting_outcomes[OF adm, of g] g flags adm show ?thesis
    by (auto simp: status_internal_error)
qed

text \<open>
  Claim C8 as stated fails: the update rejects after the insert, the answer is 500, the
  store holds one record more and the counter is still 0.
\<close>

theorem record_stored_counter_unchanged:
  "status (fst (POST failing_update basic_store ada_request)) = 500 \<and>
   websites_collection basic_store = [] \<and>
   length (websites_collection (snd (POST failing_update basic_store ada_request))) = 1 \<and>
   map websiteCount (users_collection basic_store) = [Some 0] \<and>
   map websiteCount (users_collection (snd (POST failing_update basic_store ada_request)))
     = [Some 0]"
proof -
  let ?a = "\<lparr> adm_user = ada (Some 0) ''basic'',
              adm_productUrl = Str ''https://example.com/product'',
              adm_limits = getPlanLimits ''basic'', adm_currentWebsiteCount = 0 \<rparr>"
  have adm: "admission failing_update basic_store ada_request = Inr ?a"
    by (simp add: admission_failing_update admission_basic)
  obtain g where g: "generation failing_update (adm_productUrl ?a) = Inr g"
    using generation_total[OF convertible_Str failing_update_convert] by auto
  have "POST failing_update basic_store ada_request = persist failing_update basic_store ?a g"
    using adm g by (rule POST_admitted)
  moreover have "persist failing_update basic_store ?a g =
      (internal_error,
       basic_store\<lparr> websites_collection :=
                      websites_collection basic_store @ [websiteData failing_update ?a g] \<rparr>)"
    by (rule persist_update_fails) (simp_all add: failing_update_def working_store_def)
  ultimately show ?thesis
    by (simp add: status_internal_error basic_store_def store_with_def ada_def)
qed

lemma created_addresses:
  "gen_netlifyDeployment g = None \<Longrightarrow>
     response_url (created sv a g) = Some (Str (app_url sv @ ''/websites/'' @ gen_slug g)) \<and>
     response_previewUrl (created sv a g) = Some (app_url sv @ ''/preview/'' @ gen_slug g)"
  by (simp add: created_def response_url_def response_previewUrl_def Let_def deployed_url_def
      js_or_def)

text \<open>
  Claim C6, as the code has it. With no hosting token, \<open>deployToNetlify\<close> returns null and
  makes no network call; for an admitted request that the generation stage completes (its
  product address and the image addresses convert to text) on a working store the
  response is 200, its \<open>url\<close> is the application address followed by \<open>/websites/\<close> and the
  slug, and its \<open>previewUrl\<close> is the application address followed by \<open>/preview/\<close> and the
  slug: the two differ.
\<close>

theorem no_hosting_credential:
  assumes "\<not> env_set (NETLIFY_ACCESS_TOKEN (host sv))"
    and "admission sv db req = Inr a" and "\<not> storage_fault (store sv)"
    and "convertible (adm_productUrl a)" and "addresses_convert (images sv)"
  shows "deployToNetlify (host sv) websiteHTML siteName = ([], Inr None) \<and>
         (\<exists>g. generation sv (adm_productUrl a) = Inr g \<and>
              gen_calls g = [] \<and> gen_netlifyDeployment g = None \<and>
              status (fst (POST sv db req)) = 200 \<and>
              response_url (fst (POST sv db req))
                = Some (Str (app_url sv @ ''/websites/'' @ gen_slug g)) \<and>
              response_previewUrl (fst (POST sv db req))
                = Some (app_url sv @ ''/preview/'' @ gen_slug g)) \<and>
         response_url (fst (POST sv db req))
           \<noteq> map_option Str (response_previewUrl (fst (POST sv db req)))"
proof -
  obtain g where g: "generation sv (adm_productUrl a) = Inr g" "gen_calls g = []"
    "gen_netlifyDeployment g = None"
    using generation_no_token[OF assms(1,4,5)] by blast
  have "POST sv db req = persist sv db a g"
    using assms(2) g(1) by (rule POST_admitted)
  with assms(3) have post: "fst (POST sv db req) = created sv a g"
    by (simp add: persist_succeeds)
  have "response_url (created sv a g)
          \<noteq> map_option Str (response_previewUrl (created sv a g))"
    using created_addresses[OF g(3), of sv a] by simp
  with g post created_addresses[OF g(3), of sv a] show ?thesis
    by (auto simp: deployToNetlify_no_token[OF assms(1)] status_created)
qed

text \<open>The services with no key meet the hypotheses of C6.\<close>

theorem no_hosting_credential_witness:
  "\<not> env_set (NETLIFY_ACCESS_TOKEN (host bare_services)) \<and>
   admission bare_services basic_store ada_request =
     Inr \<lparr> adm_user = ada (Some 0) ''basic'',
           adm_productUrl = Str ''https://example.com/product'',
           adm_limits = getPlanLimits ''basic'', adm_currentWebsiteCount = 0 \<rparr> \<and>
   \<not> storage_fault (store bare_services) \<and>
   convertible (Str ''https://example.com/product'') \<and>
   addresses_convert (images bare_services) \<and>
   deployToNetlify (host bare_services) ''<html></html>'' ''site'' = ([], Inr None) \<and>
   response_url (fst (POST bare_services basic_store ada_request))
     \<noteq> map_option Str (response_previewUrl (fst (POST bare_services basic_store ada_request)))"
proof -
  have token: "\<not> env_set (NETLIFY_ACCESS_TOKEN (host bare_services))"
    by (simp add: bare_services_def no_host_def env_set_def)
  from no_hosting_credential[OF token admission_basic bare_services_work _ bare_services_convert,
      of "''<html></html>''" "''site''"]
    token bare_services_work admission_basic bare_services_convert
  show ?thesis by (simp add: convertible_Str)
qed

lemma generation_bare:
  assumes "generation bare_services u = Inr g"
  shows "gen_slug g = ''premium-product-1700000000000'' \<and> gen_netlifyDeployment g = None"
proof -
  have page: "analyzeProductURL (pages bare_services) u = Inr (fallback_summary u)"
    by (simp add: analyzeProductURL_def analyze_request_def bare_services_def no_pages_def)
  have slug: "make_slug (title (fallback_summary u)) (date_now bare_services)
                = ''premium-product-1700000000000''"
    by (simp add: make_slug_def fallback_summary_def bare_services_def toLowerCase_def
        lower_char_def slug_char_def dec.simps digit_char_def)
  have "deployToNetlify (host bare_services) doc ''premium-product-1700000000000'' = ([], Inr None)"
    for doc
    by (rule deployToNetlify_no_token) (simp add: bare_services_def no_host_def env_set_def)
  with assms page slug show ?thesis
    by (auto simp: generation_def bnd_def split: sum.splits)
qed

text \<open>
  Claim C6 as stated fails: with no hosting token the live address of the response is not
  its preview address.
\<close>

theorem live_url_is_not_preview_url:
  "response_url (fst (POST bare_services basic_store ada_request))
     = Some (Str ''https://affilify.eu/websites/premium-product-1700000000000'') \<and>
   response_previewUrl (fst (POST bare_services basic_store ada_request))
     = Some ''https://affilify.eu/preview/premium-product-1700000000000''"
proof -
  let ?a = "\<lparr> adm_user = ada (Some 0) ''basic'',
              adm_productUrl = Str ''https://example.com/product'',
              adm_limits = getPlanLimits ''basic'', adm_currentWebsiteCount = 0 \<rparr>"
  obtain g where g: "generation bare_services (adm_productUrl ?a) = Inr g"
    using generation_total[OF convertible_Str bare_services_convert] by auto
  then have slug: "gen_slug g = ''premium-product-1700000000000''"
    and none: "gen_netlifyDeployment g = None"
    using generation_bare by blast+
  have "POST bare_services basic_store ada_request = persist bare_services basic_store ?a g"
    using admission_basic g by (rule POST_admitted)
  then have "fst (POST bare_services basic_store ada_request) = created bare_services ?a g"
    using bare_services_work by (simp add: persist_succeeds)
  moreover have "app_url bare_services = ''https://affilify.eu''"
    by (simp add: app_url_def bare_services_def opt_or_def)
  ultimately show ?thesis
    using created_addresses[OF none, of bare_services ?a] slug by simp
qed


section \<open>Properties of two handlers on one store\<close>

text \<open>One handler alone, run through its three stages, is \<open>POST\<close>.\<close>

lemma handler_runs_POST:
  "(case handler_step sv db (Start req) of
      (h1, d1) \<Rightarrow> (case handler_step sv d1 h1 of (h2, d2) \<Rightarrow> handler_step sv d2 h2))
   = (Done (fst (POST sv db req)), snd (POST sv db req))"
proof (cases "admission sv db req")
  case (Inl r)
  then show ?thesis by (simp add: POST_def)
next
  case (Inr a)
  show ?thesis
  proof (cases "generation sv (adm_productUrl a)")
    case (Inl e)
    with Inr show ?thesis by (simp add: POST_def)
  next
    case g: (Inr g)
    obtain r db' where "persist sv db a g = (r, db')"
      by (cases "persist sv db a g")
    with Inr g show ?thesis by (simp add: POST_def)
  qed
qed

lemma inc_websiteCount_ids:
  "map user_id (inc_websiteCount uid us) = map user_id us"
  by (induction us) auto

lemma find_in_set: "find P xs = Some x \<Longrightarrow> x \<in> set xs \<and> P x"
  by (induction xs) (auto split: if_splits)

lemma inc_websiteCount_found:
  assumes "find (\<lambda>v. authToken v = Some tok) us = Some u"
    and "distinct (map user_id us)"
  shows "find (\<lambda>v. authToken v = Some tok) (inc_websiteCount (user_id u) us)
           = Some (u\<lparr> websiteCount := Some (currentUsage u + 1) \<rparr>)"
  using assms
proof (induction us)
  case Nil
  then show ?case by simp
next
  case (Cons x xs)
  show ?case
  proof (cases "authToken x = Some tok")
    case True
    with Cons.prems have "u = x" by simp
    with True show ?thesis by (simp add: currentUsage_def)
  next
    case False
    with Cons.prems have found: "find (\<lambda>v. authToken v = Some tok) xs = Some u" by simp
    then have "u \<in> set xs" using find_in_set by fastforce
    with Cons.prems(2) have "user_id x \<noteq> user_id u" by auto
    with False found Cons show ?thesis by simp
  qed
qed

lemma account_after_increment:
  assumes "account db tok = Some u" and "distinct (map user_id (users_collection db))"
  shows "account (db\<lparr> websites_collection := ws,
                      users_collection := inc_websiteCount (user_id u) (users_collection db) \<rparr>) tok
           = Some (u\<lparr> websiteCount := Some (currentUsage u + 1) \<rparr>)"
  using assms inc_websiteCount_found[of tok "users_collection db" u]
  by (simp add: account_def)

lemma verifyUser_account:
  "auth_token_cookie req = Some tok \<Longrightarrow> tok \<noteq> [] \<Longrightarrow>
     verifyUser working_store db req = Inr (account db tok)"
  by (simp add: verifyUser_def verifyUser_request_def working_store_def env_set_def account_def)

lemma admission_below_ceiling:
  assumes "store sv = working_store" and "auth_token_cookie req = Some tok" and "tok \<noteq> []"
    and "account db tok = Some u" and "read_productUrl req = Inr productUrl"
    and "truthy productUrl" and "currentUsage u < websites (getPlanLimits (plan u))"
  shows "admission sv db req =
           Inr \<lparr> adm_user = u, adm_productUrl = productUrl, adm_limits = getPlanLimits (plan u),
                 adm_currentWebsiteCount = currentUsage u \<rparr>"
proof -
  have "verifyUser (store sv) db req = Inr (Some u)"
    using assms(1-4) by (simp add: verifyUser_account)
  from admission_authenticated[OF this assms(5,6)] assms(7) show ?thesis by simp
qed

lemma admission_at_ceiling:
  assumes "store sv = working_store" and "auth_token_cookie req = Some tok" and "tok \<noteq> []"
    and "account db tok = Some u" and "read_productUrl req = Inr productUrl"
    and "truthy productUrl" and "websites (getPlanLimits (plan u)) \<le> currentUsage u"
  shows "\<exists>r. admission sv db req = Inl r \<and> status r = 403"
proof -
  have "verifyUser (store sv) db req = Inr (Some u)"
    using assms(1-4) by (simp add: verifyUser_account)
  from admission_authenticated[OF this assms(5,6)] assms(7) show ?thesis by simp
qed

lemma working_store_no_fault: "\<not> storage_fault working_store"
  by (simp add: storage_fault_def working_store_def)

lemma handler_admits:
  "admission sv db req = Inr a \<Longrightarrow> handler_step sv db (Start req) = (Admitted a, db)"
  by simp

lemma handler_generates:
  "generation sv (adm_productUrl a) = Inr g \<Longrightarrow>
     handler_step sv db (Admitted a) = (Generated a g, db)"
  by simp

lemma handler_persists:
  "store sv = working_store \<Longrightarrow>
     handler_step sv db (Generated a g) =
       (Done (created sv a g),
        db\<lparr> websites_collection := websites_collection db @ [websiteData sv a g],
            users_collection := inc_websiteCount (user_id (adm_user a)) (users_collection db) \<rparr>)"
  by (simp add: persist_succeeds working_store_no_fault)

text \<open>
  Claim C7. An account has exactly one slot left, and two requests carry its token, each
  with a product address that is truthy and converts to text, on services whose image
  addresses convert to text. Both pass admission on the store as it is, and the system
  has a run in which both handlers finish with 200 and the counter of the account ends
  one above the ceiling. Run one after the other, the second request is answered with 403.
\<close>

theorem quota_race:
  assumes acct: "account db tok = Some u" and tok: "tok \<noteq> []"
    and ids: "distinct (map user_id (users_collection db))"
    and slot: "currentUsage u = websites (getPlanLimits (plan u)) - 1"
    and reqA: "auth_token_cookie rA = Some tok" "read_productUrl rA = Inr urlA" "truthy urlA"
    and reqB: "auth_token_cookie rB = Some tok" "read_productUrl rB = Inr urlB" "truthy urlB"
    and stores: "store svA = working_store" "store svB = working_store"
    and texts: "convertible urlA" "convertible urlB"
    and assets: "addresses_convert (images svA)" "addresses_convert (images svB)"
  shows "allowed (admission svA db rA) \<and> allowed (admission svB db rB) \<and>
         (\<exists>respA respB db'.
            (system_step svA svB)\<^sup>*\<^sup>* (Start rA, Start rB, db) (Done respA, Done respB, db') \<and>
            status respA = 200 \<and> status respB = 200 \<and>
            (\<exists>u'. account db' tok = Some u' \<and> plan u' = plan u \<and>
                  currentUsage u' = websites (getPlanLimits (plan u)) + 1)) \<and>
         status (fst (POST svB (snd (POST svA db rA)) rB)) = 403"
proof -
  let ?lim = "getPlanLimits (plan u)"
  let ?a = "\<lparr> adm_user = u, adm_productUrl = urlA, adm_limits = ?lim,
              adm_currentWebsiteCount = currentUsage u \<rparr>"
  let ?b = "\<lparr> adm_user = u, adm_productUrl = urlB, adm_limits = ?lim,
              adm_currentWebsiteCount = currentUsage u \<rparr>"
  from slot have below: "currentUsage u < websites ?lim" by simp
  have admA: "admission svA db rA = Inr ?a"
    using stores(1) reqA(1) tok acct reqA(2,3) below by (rule admission_below_ceiling)
  have admB: "admission svB db rB = Inr ?b"
    using stores(2) reqB(1) tok acct reqB(2,3) below by (rule admission_below_ceiling)
  obtain gA where gA: "generation svA (adm_productUrl ?a) = Inr gA"
    using generation_total[OF texts(1) assets(1)] by auto
  obtain gB where gB: "generation svB (adm_productUrl ?b) = Inr gB"
    using generation_total[OF texts(2) assets(2)] by auto
  let ?u1 = "u\<lparr> websiteCount := Some (currentUsage u + 1) \<rparr>"
  let ?u2 = "?u1\<lparr> websiteCount := Some (currentUsage ?u1 + 1) \<rparr>"
  let ?db1 = "db\<lparr> websites_collection := websites_collection db @ [websiteData svA ?a gA],
                  users_collection := inc_websiteCount (user_id u) (users_collection db) \<rparr>"
  let ?db2 = "?db1\<lparr> websites_collection := websites_collection ?db1 @ [websiteData svB ?b gB],
                    users_collection := inc_websiteCount (user_id ?u1) (users_collection ?db1) \<rparr>"
  have acct1: "account ?db1 tok = Some ?u1"
    using acct ids by (rule account_after_increment)
  have ids1: "distinct (map user_id (users_collection ?db1))"
    using ids by (simp add: inc_websiteCount_ids)
  have acct2: "account ?db2 tok = Some ?u2"
    using acct1 ids1 by (rule account_after_increment)
  have s1: "system_step svA svB (Start rA, Start rB, db) (Admitted ?a, Start rB, db)"
    using handler_admits[OF admA] by (rule first_steps)
  have s2: "system_step svA svB (Admitted ?a, Start rB, db) (Admitted ?a, Admitted ?b, db)"
    using handler_admits[OF admB] by (rule second_steps)
  have s3: "system_step svA svB (Admitted ?a, Admitted ?b, db) (Generated ?a gA, Admitted ?b, db)"
    using handler_generates[OF gA] by (rule first_steps)
  have s4: "system_step svA svB (Generated ?a gA, Admitted ?b, db)
              (Done (created svA ?a gA), Admitted ?b, ?db1)"
    using handler_persists[OF stores(1), of db ?a gA] by (intro first_steps) simp
  have s5: "system_step svA svB (Done (created svA ?a gA), Admitted ?b, ?db1)
              (Done (created svA ?a gA), Generated ?b gB, ?db1)"
    using handler_generates[OF gB] by (rule second_steps)
  have s6: "system_step svA svB (Done (created svA ?a gA), Generated ?b gB, ?db1)
              (Done (created svA ?a gA), Done (created svB ?b gB), ?db2)"
    using handler_persists[OF stores(2), of ?db1 ?b gB] by (intro second_steps) simp
  have run: "(system_step svA svB)\<^sup>*\<^sup>* (Start rA, Start rB, db)
               (Done (created svA ?a gA), Done (created svB ?b gB), ?db2)"
    using s1 s2 s3 s4 s5 s6 by (meson rtranclp.rtrancl_into_rtrancl rtranclp.rtrancl_refl)
  have over: "plan ?u2 = plan u \<and> currentUsage ?u2 = websites ?lim + 1"
    using slot by (simp add: currentUsage_def)
  have raced: "\<exists>respA respB db'.
            (system_step svA svB)\<^sup>*\<^sup>* (Start rA, Start rB, db) (Done respA, Done respB, db') \<and>
            status respA = 200 \<and> status respB = 200 \<and>
            (\<exists>u'. account db' tok = Some u' \<and> plan u' = plan u \<and>
                  currentUsage u' = websites (getPlanLimits (plan u)) + 1)"
    using run acct2 over status_created by blast
  have "POST svA db rA = persist svA db ?a gA"
    using admA gA by (rule POST_admitted)
  then have first: "snd (POST svA db rA) = ?db1"
    using stores(1) by (simp add: persist_succeeds working_store_no_fault)
  have "websites (getPlanLimits (plan ?u1)) \<le> currentUsage ?u1"
    using slot by (simp add: currentUsage_def)
  with stores(2) reqB(1) tok acct1 reqB(2,3)
  obtain r where "admission svB ?db1 rB = Inl r" "status r = 403"
    using admission_at_ceiling by blast
  with first have "status (fst (POST svB (snd (POST svA db rA)) rB)) = 403"
    by (simp add: POST_def)
  with admA admB raced show ?thesis
    by (simp add: allowed_def)
qed

text \<open>The basic account with two sites meets the hypotheses of C7.\<close>

theorem quota_race_witness:
  "account two_sites ''t-ada'' = Some (ada (Some 2) ''basic'') \<and>
   distinct (map user_id (users_collection two_sites)) \<and>
   currentUsage (ada (Some 2) ''basic'') = websites (getPlanLimits (plan (ada (Some 2) ''basic''))) - 1 \<and>
   auth_token_cookie ada_request = Some ''t-ada'' \<and>
   read_productUrl ada_request = Inr (Str ''https://example.com/product'') \<and>
   truthy (Str ''https://example.com/product'') \<and>
   store bare_services = working_store \<and>
   convertible (Str ''https://example.com/product'') \<and>
   addresses_convert (images bare_services) \<and>
   (\<exists>respA respB db'.
      (system_step bare_services bare_services)\<^sup>*\<^sup>*
        (Start ada_request, Start ada_request, two_sites) (Done respA, Done respB, db') \<and>
      status respA = 200 \<and> status respB = 200 \<and>
      (\<exists>u'. account db' ''t-ada'' = Some u' \<and> currentUsage u' = 4)) \<and>
   status (fst (POST bare_services (snd (POST bare_services two_sites ada_request)) ada_request))
     = 403"
proof -
  have acct: "account two_sites ''t-ada'' = Some (ada (Some 2) ''basic'')"
    by (simp add: account_def two_sites_def store_with_def ada_def)
  have ids: "distinct (map user_id (users_collection two_sites))"
    by (simp add: two_sites_def store_with_def)
  have slot: "currentUsage (ada (Some 2) ''basic'')
                = websites (getPlanLimits (plan (ada (Some 2) ''basic''))) - 1"
    by (simp add: currentUsage_def ada_def getPlanLimits_websites)
  have cookie: "auth_token_cookie ada_request = Some ''t-ada''"
    by (simp add: ada_request_def)
  note content = read_productUrl_ada
  have texts: "convertible (Str ''https://example.com/product'')"
    by (rule convertible_Str)
  note assets = bare_services_convert
  have stores: "store bare_services = working_store"
    by (simp add: bare_services_def)
  have ceiling: "websites (getPlanLimits (plan (ada (Some 2) ''basic''))) + 1 = 4"
    by (simp add: ada_def getPlanLimits_websites)
  from quota_race[OF acct _ ids slot cookie content _ cookie content _ stores stores
      texts texts assets assets]
    acct ids slot cookie content stores ceiling texts assets
  show ?thesis by simp blast
qed

end
